theory Spec2Isabelle
  imports Complex_Main "HOL-Library.AList"
begin

section \<open>Python values, strings and exceptions\<close>

text \<open>
  The services of the BOM platform pass around untyped dictionaries that come out of
  \<^verbatim>\<open>json.loads\<close>. A value is therefore a JSON value as Python holds it: \<^verbatim>\<open>None\<close>,
  a \<^verbatim>\<open>bool\<close>, an \<^verbatim>\<open>int\<close>, a \<^verbatim>\<open>float\<close>, a \<^verbatim>\<open>str\<close>, a \<^verbatim>\<open>list\<close> or a \<^verbatim>\<open>dict\<close>
  with string keys. A dictionary is an association list in insertion order
  (\<open>AList.update\<close> is Python's \<^verbatim>\<open>d[k] = v\<close>: it overwrites in place or appends).
  Floats are modelled by the real number they denote: the code only compares them and
  takes their maximum, which is exact on floats (NaN is left out). Strings are byte
  strings holding the UTF-8 encoding of the Python text: substring search and the order
  of two strings are the same on the bytes as on the code points.
\<close>

datatype jval = JNull | JBool bool | JInt int | JFloat real | JStr string
  | JList "jval list" | JObj "(string \<times> jval) list"

type_synonym item = "(string \<times> jval) list"

datatype exn_class = RuntimeError | ValueError | AttributeError | TypeError
  | IntegrityError | InterfaceError | OtherException

text \<open>An exception: its class and the text \<^verbatim>\<open>str(e)\<close> gives.\<close>

datatype error = Exn exn_class string

fun str_exn :: "error \<Rightarrow> string" where
  "str_exn (Exn c m) = m"

definition digit_char :: "nat \<Rightarrow> char" where
  "digit_char d = ''0123456789'' ! d"

text \<open>\<^verbatim>\<open>str(n)\<close> for a non-negative integer.\<close>

function str_nat :: "nat \<Rightarrow> string" where
  "str_nat n = (if n < 10 then [digit_char n] else str_nat (n div 10) @ [digit_char (n mod 10)])"
  by pat_completeness auto
termination
  by (relation "measure id") auto

declare str_nat.simps [simp del]

definition quoted :: "string \<Rightarrow> string" where
  "quoted s = [CHR 0x27] @ s @ [CHR 0x27]"

fun type_name :: "jval \<Rightarrow> string" where
  "type_name JNull = ''NoneType''"
| "type_name (JBool b) = ''bool''"
| "type_name (JInt i) = ''int''"
| "type_name (JFloat r) = ''float''"
| "type_name (JStr s) = ''str''"
| "type_name (JList xs) = ''list''"
| "type_name (JObj kvs) = ''dict''"

text \<open>Python truthiness, as \<^verbatim>\<open>if v:\<close> and \<^verbatim>\<open>and\<close>/\<^verbatim>\<open>or\<close>/\<^verbatim>\<open>not\<close> read a value.\<close>

fun truthy :: "jval \<Rightarrow> bool" where
  "truthy JNull = False"
| "truthy (JBool b) = b"
| "truthy (JInt i) = (i \<noteq> 0)"
| "truthy (JFloat r) = (r \<noteq> 0)"
| "truthy (JStr s) = (s \<noteq> [])"
| "truthy (JList xs) = (xs \<noteq> [])"
| "truthy (JObj kvs) = (kvs \<noteq> [])"

fun as_number :: "jval \<Rightarrow> real option" where
  "as_number (JBool b) = Some (if b then 1 else 0)"
| "as_number (JInt i) = Some (real_of_int i)"
| "as_number (JFloat r) = Some r"
| "as_number v = None"

text \<open>
  Python's \<^verbatim>\<open>==\<close>: numbers and booleans compare by value (\<^verbatim>\<open>True == 1 == 1.0\<close>), lists
  element by element, dictionaries key by key whatever the order of insertion.
\<close>

fun py_eq :: "jval \<Rightarrow> jval \<Rightarrow> bool"
  and list_eq :: "jval list \<Rightarrow> jval list \<Rightarrow> bool"
  and obj_sub :: "(string \<times> jval) list \<Rightarrow> (string \<times> jval) list \<Rightarrow> bool" where
  "py_eq (JList a) v = (case v of JList b \<Rightarrow> list_eq a b | _ \<Rightarrow> False)"
| "py_eq (JObj a) v = (case v of JObj b \<Rightarrow> length a = length b \<and> obj_sub a b | _ \<Rightarrow> False)"
| "py_eq (JStr s) v = (case v of JStr t \<Rightarrow> s = t | _ \<Rightarrow> False)"
| "py_eq JNull v = (case v of JNull \<Rightarrow> True | _ \<Rightarrow> False)"
| "py_eq u v = (case as_number v of Some y \<Rightarrow> as_number u = Some y | None \<Rightarrow> False)"
| "list_eq [] ys = (ys = [])"
| "list_eq (x # xs) ys = (case ys of [] \<Rightarrow> False | y # ys' \<Rightarrow> py_eq x y \<and> list_eq xs ys')"
| "obj_sub [] b = True"
| "obj_sub (kv # kvs) b =
     (case map_of b (fst kv) of None \<Rightarrow> False | Some w \<Rightarrow> py_eq (snd kv) w \<and> obj_sub kvs b)"

text \<open>\<^verbatim>\<open>d.get(k)\<close> and \<^verbatim>\<open>d.get(k, default)\<close>.\<close>

definition get_or :: "item \<Rightarrow> string \<Rightarrow> jval \<Rightarrow> jval" where
  "get_or d k dflt = (case map_of d k of None \<Rightarrow> dflt | Some v \<Rightarrow> v)"

definition get :: "item \<Rightarrow> string \<Rightarrow> jval" where
  "get d k = get_or d k JNull"

text \<open>\<^verbatim>\<open>d.update({...})\<close>: the keys are assigned in the order they are written.\<close>

fun dict_update :: "item \<Rightarrow> (string \<times> jval) list \<Rightarrow> item" where
  "dict_update d [] = d"
| "dict_update d (kv # kvs) = dict_update (AList.update (fst kv) (snd kv) d) kvs"

subsection \<open>String operations\<close>

fun starts_with :: "string \<Rightarrow> string \<Rightarrow> bool" where
  "starts_with s [] = True"
| "starts_with [] (p # ps) = False"
| "starts_with (c # cs) (p # ps) = (c = p \<and> starts_with cs ps)"

text \<open>\<^verbatim>\<open>sub in s\<close> for two strings.\<close>

fun str_contains :: "string \<Rightarrow> string \<Rightarrow> bool" where
  "str_contains [] sub = (sub = [])"
| "str_contains (c # cs) sub = (starts_with (c # cs) sub \<or> str_contains cs sub)"

text \<open>\<^verbatim>\<open>a > b\<close> on strings: lexicographic on code points, which is the byte order of UTF-8.\<close>

fun str_gt :: "string \<Rightarrow> string \<Rightarrow> bool" where
  "str_gt [] t = False"
| "str_gt (c # cs) [] = True"
| "str_gt (c # cs) (d # ds) =
     (if c = d then str_gt cs ds else (of_char d :: nat) < of_char c)"

subsection \<open>Membership, ordering and hashing\<close>

fun hashable :: "jval \<Rightarrow> bool" where
  "hashable (JList xs) = False"
| "hashable (JObj kvs) = False"
| "hashable v = True"

definition unhashable_error :: "jval \<Rightarrow> error" where
  "unhashable_error v = Exn TypeError (''unhashable type: '' @ quoted (type_name v))"

text \<open>\<^verbatim>\<open>x in c\<close>: a substring test, list membership or key membership; anything else raises.\<close>

definition py_in :: "jval \<Rightarrow> jval \<Rightarrow> error + bool" where
  "py_in x c =
     (case c of
        JStr s \<Rightarrow>
          (case x of
             JStr t \<Rightarrow> Inr (str_contains s t)
           | _ \<Rightarrow> Inl (Exn TypeError (quoted ''in <string>'' @
                   '' requires string as left operand, not '' @ type_name x)))
      | JList ys \<Rightarrow> Inr (list_ex (\<lambda>y. py_eq y x) ys)
      | JObj kvs \<Rightarrow>
          (if hashable x then Inr (list_ex (\<lambda>k. py_eq (JStr k) x) (map fst kvs))
           else Inl (unhashable_error x))
      | _ \<Rightarrow> Inl (Exn TypeError (''argument of type '' @ quoted (type_name c) @
              '' is not iterable'')))"

definition not_supported :: "jval \<Rightarrow> jval \<Rightarrow> error" where
  "not_supported u v = Exn TypeError (quoted ''>'' @ '' not supported between instances of '' @
     quoted (type_name u) @ '' and '' @ quoted (type_name v))"

text \<open>\<^verbatim>\<open>u > v\<close>: numbers with numbers, strings with strings, lists lexicographically.\<close>

fun py_gt :: "jval \<Rightarrow> jval \<Rightarrow> error + bool"
  and list_gt :: "jval list \<Rightarrow> jval list \<Rightarrow> error + bool" where
  "py_gt (JList a) v = (case v of JList b \<Rightarrow> list_gt a b | _ \<Rightarrow> Inl (not_supported (JList a) v))"
| "py_gt (JStr s) v = (case v of JStr t \<Rightarrow> Inr (str_gt s t) | _ \<Rightarrow> Inl (not_supported (JStr s) v))"
| "py_gt u v =
     (case as_number u of
        None \<Rightarrow> Inl (not_supported u v)
      | Some x \<Rightarrow> (case as_number v of None \<Rightarrow> Inl (not_supported u v) | Some y \<Rightarrow> Inr (y < x)))"
| "list_gt [] ys = Inr False"
| "list_gt (x # xs) ys =
     (case ys of [] \<Rightarrow> Inr True | y # ys' \<Rightarrow> if py_eq x y then list_gt xs ys' else py_gt x y)"

text \<open>\<^verbatim>\<open>max(a, b)\<close> keeps \<open>a\<close> unless \<^verbatim>\<open>b > a\<close>.\<close>

definition py_max :: "jval \<Rightarrow> jval \<Rightarrow> error + jval" where
  "py_max a b = (case py_gt b a of Inl e \<Rightarrow> Inl e | Inr g \<Rightarrow> Inr (if g then b else a))"

text \<open>
  The text an f-string puts for a value. A string stands for itself; what \<^verbatim>\<open>str()\<close>
  prints for any other value (the digits of a float, the \<^verbatim>\<open>repr\<close> of a container) is
  Python's and is taken as the parameter \<open>str_of\<close>.
\<close>

definition fmt :: "(jval \<Rightarrow> string) \<Rightarrow> jval \<Rightarrow> string" where
  "fmt str_of v = (case v of JStr s \<Rightarrow> s | _ \<Rightarrow> str_of v)"

text \<open>
  The functions of Python itself that the services call on strings: \<^verbatim>\<open>str()\<close>,
  \<^verbatim>\<open>str.strip()\<close> and \<^verbatim>\<open>str.lower()\<close>. What counts as white space and the lower case
  of a letter are Unicode's, so the three are parameters of the model, and every
  statement about the deduplication holds whatever they are.
\<close>

record python =
  py_str :: "jval \<Rightarrow> string"
  py_strip :: "string \<Rightarrow> string"
  py_lower :: "string \<Rightarrow> string"

section \<open>The resilient external call (\<^verbatim>\<open>_call_api_with_retry\<close>)\<close>

text \<open>
  \<^verbatim>\<open>GeminiAgentService._call_api_with_retry\<close> and \<^verbatim>\<open>TranslationService._call_api_with_retry\<close>
  are the same function. Inside its \<^verbatim>\<open>try\<close> it posts and calls \<^verbatim>\<open>raise_for_status\<close>;
  an attempt ends in one of the three ways the \<^verbatim>\<open>except\<close> clauses tell apart: the
  response is returned, \<^verbatim>\<open>HTTPError\<close> (with \<^verbatim>\<open>e.response.status_code\<close> and \<^verbatim>\<open>str(e)\<close>), or
  another \<^verbatim>\<open>RequestException\<close> (with \<^verbatim>\<open>str(e)\<close>). The remote service is an oracle that
  gives the outcome of the attempt number \<open>i\<close>.
\<close>

record response =
  status_code :: nat
  message_content :: "error + string"

datatype attempt = Returned response | HTTPError nat string | RequestException string

text \<open>What a call leaves behind: its result, the posts made, the seconds slept.\<close>

record call_trace =
  outcome :: "error + response option"
  posts :: nat
  sleeps :: "nat list"

function retry_from :: "(nat \<Rightarrow> attempt) \<Rightarrow> nat \<Rightarrow> nat \<Rightarrow> call_trace" where
  "retry_from post max_retries i =
     (if i < max_retries then
        (case post i of
           Returned r \<Rightarrow> \<lparr>outcome = Inr (Some r), posts = 1, sleeps = []\<rparr>
         | HTTPError code msg \<Rightarrow>
             if code = 429 \<and> i < max_retries - 1 then
               (let t = retry_from post max_retries (i + 1)
                in \<lparr>outcome = outcome t, posts = 1 + posts t, sleeps = 2 ^ i # sleeps t\<rparr>)
             else
               \<lparr>outcome = Inl (Exn RuntimeError
                   (''API call failed after '' @ str_nat (i + 1) @ '' retries: '' @ msg)),
                posts = 1, sleeps = []\<rparr>
         | RequestException msg \<Rightarrow>
             \<lparr>outcome = Inl (Exn RuntimeError (''API call failed: '' @ msg)),
              posts = 1, sleeps = []\<rparr>)
      else \<lparr>outcome = Inr None, posts = 0, sleeps = []\<rparr>)"
  by pat_completeness auto
termination
  by (relation "measure (\<lambda>(post, max_retries, i). max_retries - i)") auto

declare retry_from.simps [simp del]

definition call_api_with_retry_n :: "(nat \<Rightarrow> attempt) \<Rightarrow> nat \<Rightarrow> call_trace" where
  "call_api_with_retry_n post max_retries = retry_from post max_retries 0"

text \<open>The default \<^verbatim>\<open>max_retries = 5\<close>, which every caller in the repository uses.\<close>

definition call_api_with_retry :: "(nat \<Rightarrow> attempt) \<Rightarrow> call_trace" where
  "call_api_with_retry post = call_api_with_retry_n post 5"

definition rate_limited :: "attempt \<Rightarrow> bool" where
  "rate_limited a = (case a of HTTPError code msg \<Rightarrow> code = 429 | _ \<Rightarrow> False)"

section \<open>The translation service\<close>

text \<open>
  \<^verbatim>\<open>TranslationService._call_api\<close> wraps every exception of the retrying call in a
  \<^verbatim>\<open>RuntimeError\<close>. \<^verbatim>\<open>translate_to_english\<close> reads
  \<^verbatim>\<open>response.json()['choices'][0]['message']['content']\<close>, whose outcome is the field
  \<open>message_content\<close> of the response, and answers every exception with the text it
  was given. A call that returned \<^verbatim>\<open>None\<close> has no \<^verbatim>\<open>json\<close> attribute, which is one of
  those exceptions.
\<close>

definition translation_call_api :: "(nat \<Rightarrow> attempt) \<Rightarrow> error + response option" where
  "translation_call_api post =
     (case outcome (call_api_with_retry post) of
        Inl e \<Rightarrow> Inl (Exn RuntimeError (''API call failed: '' @ str_exn e))
      | Inr r \<Rightarrow> Inr r)"

definition translate_to_english :: "(nat \<Rightarrow> attempt) \<Rightarrow> string \<Rightarrow> error + string" where
  "translate_to_english post text =
     (case translation_call_api post of
        Inl e \<Rightarrow> Inr text
      | Inr None \<Rightarrow> Inr text
      | Inr (Some r) \<Rightarrow>
          (case message_content r of
             Inl e \<Rightarrow> Inr text
           | Inr extracted_text \<Rightarrow> Inr extracted_text))"

section \<open>The classification service\<close>

text \<open>
  \<^verbatim>\<open>GeminiAgentService._call_api\<close> is the retrying call itself.
  \<^verbatim>\<open>extract_and_classify_items\<close> reads the content of the response, takes the JSON text
  out of its markdown fence and parses it. A response without choices, a text that is not
  JSON, JSON that is not a list and every exception all give the empty list. The parser
  (the fence, \<^verbatim>\<open>json.loads\<close> and the test for a list) is the parameter \<open>parse_items\<close>,
  which gives \<open>None\<close> where the source answers \<^verbatim>\<open>[]\<close>; the elements of a parsed list
  are taken to be objects.
\<close>

definition extract_and_classify_items ::
  "(nat \<Rightarrow> attempt) \<Rightarrow> (string \<Rightarrow> item list option) \<Rightarrow> error + item list" where
  "extract_and_classify_items post parse_items =
     (case outcome (call_api_with_retry post) of
        Inl e \<Rightarrow> Inr []
      | Inr None \<Rightarrow> Inr []
      | Inr (Some r) \<Rightarrow>
          (case message_content r of
             Inl e \<Rightarrow> Inr []
           | Inr extracted_text \<Rightarrow>
               (case parse_items extracted_text of
                  None \<Rightarrow> Inr []
                | Some parsed_data \<Rightarrow> Inr parsed_data)))"

section \<open>Stored state (\<^verbatim>\<open>models.py\<close>)\<close>

text \<open>
  One row of the table \<^verbatim>\<open>workflows\<close>, without its two timestamps, and the stores the
  orchestrator writes: the knowledge base, the pending approvals, the result files
  \<^verbatim>\<open>results/<id>.json\<close> and the table \<^verbatim>\<open>workflow_results\<close>. Writes to them succeed,
  except that the knowledge base may refuse a row, in one of two ways. The driver may be
  unable to bind a value (a list or a dictionary) and raise before the statement runs.
  Or the statement runs and the table refuses the row (its \<^verbatim>\<open>material_name\<close> is
  \<^verbatim>\<open>NOT NULL\<close>): \<^verbatim>\<open>KnowledgeBaseModel.add_item\<close> then never reaches its
  \<^verbatim>\<open>conn.close()\<close>, the open connection keeps the write lock, and the next write
  through another connection raises \<^verbatim>\<open>database is locked\<close>. What the knowledge base
  answers to a row is the parameter \<open>kb_insert\<close> of the services.
\<close>

datatype refusal = Rejected error | Aborted error

record workflow =
  status :: string
  comparison_mode :: string
  progress :: int
  current_stage :: "string option"
  message :: "string option"
  wi_document_path :: "string option"
  item_master_path :: "string option"

text \<open>
  The arguments \<^verbatim>\<open>_add_to_knowledge_base\<close> gives \<^verbatim>\<open>add_item\<close> for one row.
  \<open>kb_confidence\<close> is the value the source passes through \<^verbatim>\<open>str()\<close>,
  \<open>kb_vendor_name\<close> the value it wraps as \<^verbatim>\<open>{'vendor_name': ...}\<close> and
  \<open>kb_metadata\<close> the item it dumps as JSON.
\<close>

record kb_entry =
  kb_material_name :: jval
  kb_part_number :: jval
  kb_description :: jval
  kb_classification_label :: jval
  kb_confidence :: jval
  kb_vendor_name :: jval
  kb_workflow_id :: string
  kb_approved_by :: string
  kb_metadata :: item

record summary =
  total_materials :: nat
  successful_matches :: nat
  knowledge_base_matches :: nat
  summary_comparison_mode :: string

record workflow_result =
  matches :: "item list"
  result_summary :: summary

record world =
  workflows :: "(string \<times> workflow) list"
  knowledge_base :: "kb_entry list"
  pending_approvals :: "(string \<times> item) list"
  results_files :: "(string \<times> workflow_result) list"
  workflow_results :: "(string \<times> workflow_result) list"

text \<open>\<^verbatim>\<open>if stage:\<close> and \<^verbatim>\<open>if message:\<close> on an optional string.\<close>

fun given :: "string option \<Rightarrow> bool" where
  "given None = False"
| "given (Some s) = (s \<noteq> [])"

definition update_row ::
  "string \<Rightarrow> int option \<Rightarrow> string option \<Rightarrow> string option \<Rightarrow> workflow \<Rightarrow> workflow" where
  "update_row st prog stage msg r =
     (let r1 = r\<lparr>status := st\<rparr>;
          r2 = (case prog of None \<Rightarrow> r1 | Some p \<Rightarrow> r1\<lparr>progress := p\<rparr>);
          r3 = (if given stage then r2\<lparr>current_stage := stage\<rparr> else r2);
          r4 = (if given msg then r3\<lparr>message := msg\<rparr> else r3)
      in r4)"

text \<open>\<^verbatim>\<open>WorkflowModel.update_workflow_status\<close>: \<^verbatim>\<open>UPDATE workflows SET ... WHERE id = ?\<close>.\<close>

definition update_workflow_status ::
  "string \<Rightarrow> string \<Rightarrow> int option \<Rightarrow> string option \<Rightarrow> string option \<Rightarrow> world \<Rightarrow> world" where
  "update_workflow_status wid st prog stage msg w =
     w\<lparr>workflows := AList.map_entry wid (update_row st prog stage msg) (workflows w)\<rparr>"

text \<open>\<^verbatim>\<open>WorkflowModel.get_workflow\<close>.\<close>

definition get_workflow :: "world \<Rightarrow> string \<Rightarrow> workflow option" where
  "get_workflow w wid = map_of (workflows w) wid"

section \<open>Deduplication (\<^verbatim>\<open>WorkflowService._deduplicate_items\<close>)\<close>

definition ACTION_HUMAN :: string where
  "ACTION_HUMAN = [CHR 0xF0, CHR 0x9F, CHR 0x94, CHR 0xB4] @ '' Human Intervention Required''"

definition ACTION_FLAG :: string where
  "ACTION_FLAG = [CHR 0xF0, CHR 0x9F, CHR 0x9F, CHR 0xA0] @ '' Auto w/ Flag''"

definition ACTION_AUTO :: string where
  "ACTION_AUTO = [CHR 0xF0, CHR 0x9F, CHR 0x9F, CHR 0xA2] @ '' Auto-Register''"

text \<open>\<^verbatim>\<open>x.strip() if x is not None else ''\<close>.\<close>

definition strip_or_empty :: "python \<Rightarrow> jval \<Rightarrow> error + string" where
  "strip_or_empty py v =
     (case v of
        JNull \<Rightarrow> Inr []
      | JStr s \<Rightarrow> Inr (py_strip py s)
      | _ \<Rightarrow> Inl (Exn AttributeError (quoted (type_name v) @ '' object has no attribute '' @
              quoted ''strip'')))"

definition dedup_key :: "python \<Rightarrow> item \<Rightarrow> error + string" where
  "dedup_key py it =
     (case strip_or_empty py (get it ''material_name'') of
        Inl e \<Rightarrow> Inl e
      | Inr material_name_str \<Rightarrow>
          (case strip_or_empty py (get it ''part_number'') of
             Inl e \<Rightarrow> Inl e
           | Inr part_number_str \<Rightarrow>
               Inr (py_lower py material_name_str @ ''||'' @ py_lower py part_number_str)))"

definition merge_reasoning :: "(jval \<Rightarrow> string) \<Rightarrow> item \<Rightarrow> item \<Rightarrow> error + item" where
  "merge_reasoning str_of existing_item it =
     (let new_reasoning = get_or it ''reasoning'' (JStr []);
          old_reasoning = get_or existing_item ''reasoning'' (JStr [])
      in if truthy new_reasoning then
           (case py_in new_reasoning old_reasoning of
              Inl e \<Rightarrow> Inl e
            | Inr found \<Rightarrow>
                Inr (if found then existing_item
                     else AList.update ''reasoning''
                            (JStr (fmt str_of old_reasoning @ '' | '' @ fmt str_of new_reasoning))
                            existing_item))
         else Inr existing_item)"

definition merge_confidence :: "item \<Rightarrow> item \<Rightarrow> error + item" where
  "merge_confidence existing_item it =
     (case py_max (get_or existing_item ''confidence_score'' (JInt 0))
                  (get_or it ''confidence_score'' (JInt 0)) of
        Inl e \<Rightarrow> Inl e
      | Inr m \<Rightarrow> Inr (AList.update ''confidence_score'' m existing_item))"

text \<open>\<^verbatim>\<open>action_path_priority.get(v)\<close>: the lookup hashes its key first.\<close>

definition action_path_priority :: "jval \<Rightarrow> error + nat option" where
  "action_path_priority v =
     (if hashable v then
        Inr (case v of
               JStr s \<Rightarrow> map_of [(ACTION_HUMAN, 3), (ACTION_FLAG, 2), (ACTION_AUTO, 1)] s
             | _ \<Rightarrow> None)
      else Inl (unhashable_error v))"

definition merge_action_path :: "item \<Rightarrow> item \<Rightarrow> error + item" where
  "merge_action_path existing_item it =
     (case action_path_priority (get existing_item ''action_path'') of
        Inl e \<Rightarrow> Inl e
      | Inr current_priority \<Rightarrow>
          (case action_path_priority (get it ''action_path'') of
             Inl e \<Rightarrow> Inl e
           | Inr new_priority \<Rightarrow>
               Inr (case new_priority of
                      None \<Rightarrow> existing_item
                    | Some n \<Rightarrow>
                        (case current_priority of
                           None \<Rightarrow> AList.update ''action_path'' (get it ''action_path'') existing_item
                         | Some c \<Rightarrow>
                             if c < n
                             then AList.update ''action_path'' (get it ''action_path'') existing_item
                             else existing_item))))"

definition merge_label :: "item \<Rightarrow> item \<Rightarrow> item" where
  "merge_label existing_item it =
     (if truthy (get it ''qa_classification_label'') \<and>
         \<not> py_eq (get it ''qa_classification_label'') (get existing_item ''qa_classification_label'')
      then AList.update ''qa_classification_label'' (get existing_item ''qa_classification_label'')
             existing_item
      else existing_item)"

text \<open>The body of the branch \<^verbatim>\<open>if key in unique_items\<close>, in the order of the source.\<close>

definition merge_duplicate :: "(jval \<Rightarrow> string) \<Rightarrow> item \<Rightarrow> item \<Rightarrow> error + item" where
  "merge_duplicate str_of existing_item it =
     (case merge_reasoning str_of existing_item it of
        Inl e \<Rightarrow> Inl e
      | Inr e1 \<Rightarrow>
          (case merge_confidence e1 it of
             Inl e \<Rightarrow> Inl e
           | Inr e2 \<Rightarrow>
               (case merge_action_path e2 it of
                  Inl e \<Rightarrow> Inl e
                | Inr e3 \<Rightarrow> Inr (merge_label e3 it))))"

text \<open>
  The loop over \<^verbatim>\<open>items\<close>; \<open>unique_items\<close> is the dictionary of the source, in
  insertion order, so that its values come out in the order the keys were first seen.
\<close>

fun dedup_loop ::
  "python \<Rightarrow> (string \<times> item) list \<Rightarrow> item list \<Rightarrow> error + (string \<times> item) list" where
  "dedup_loop py unique_items [] = Inr unique_items"
| "dedup_loop py unique_items (it # items) =
     (case dedup_key py it of
        Inl e \<Rightarrow> Inl e
      | Inr key \<Rightarrow>
          (case map_of unique_items key of
             Some existing_item \<Rightarrow>
               (case merge_duplicate (py_str py) existing_item it of
                  Inl e \<Rightarrow> Inl e
                | Inr merged \<Rightarrow> dedup_loop py (AList.update key merged unique_items) items)
           | None \<Rightarrow> dedup_loop py (AList.update key it unique_items) items))"

definition deduplicate_items :: "python \<Rightarrow> item list \<Rightarrow> error + item list" where
  "deduplicate_items py items =
     (if items = [] then Inr []
      else (case dedup_loop py [] items of
              Inl e \<Rightarrow> Inl e
            | Inr unique_items \<Rightarrow> Inr (map snd unique_items)))"

section \<open>The orchestrator (\<^verbatim>\<open>WorkflowService._process_workflow_async\<close>)\<close>

text \<open>
  The collaborators of the orchestrator are fields of the service object (the tests
  replace them by mocks), so they are parameters here: each one returns a value or
  raises. The item master and the knowledge base items reach the classification call as
  JSON text in the source; the model hands over the lists themselves.
\<close>

record services =
  doc_extract_text :: "string \<Rightarrow> error + string"
  doc_parse_item_master :: "string \<Rightarrow> error + item list"
  kb_get_items :: "error + item list"
  translation :: "string \<Rightarrow> error + string"
  gemini_extract_and_classify :: "string \<Rightarrow> item list \<Rightarrow> item list \<Rightarrow> error + item list"
  kb_insert :: "kb_entry \<Rightarrow> refusal option"

definition kb_entry_of :: "string \<Rightarrow> item \<Rightarrow> kb_entry" where
  "kb_entry_of wid m =
     \<lparr>kb_material_name = get m ''material_name'',
      kb_part_number = get m ''part_number'',
      kb_description = get m ''reasoning'',
      kb_classification_label = get m ''qa_classification_label'',
      kb_confidence = get m ''confidence_score'',
      kb_vendor_name = get m ''vendor_name'',
      kb_workflow_id = wid,
      kb_approved_by = ''system'',
      kb_metadata = m\<rparr>"

text \<open>\<^verbatim>\<open>_add_to_knowledge_base\<close>: rows already inserted stay when a later one is refused.\<close>

fun add_to_knowledge_base ::
  "(kb_entry \<Rightarrow> refusal option) \<Rightarrow> string \<Rightarrow> item list \<Rightarrow> world \<Rightarrow> refusal option \<times> world" where
  "add_to_knowledge_base ins wid [] w = (None, w)"
| "add_to_knowledge_base ins wid (m # ms) w =
     (case ins (kb_entry_of wid m) of
        Some refused \<Rightarrow> (Some refused, w)
      | None \<Rightarrow>
          add_to_knowledge_base ins wid ms
            (w\<lparr>knowledge_base := knowledge_base w @ [kb_entry_of wid m]\<rparr>))"

text \<open>\<^verbatim>\<open>_create_pending_approvals\<close>: one pending row per item, holding the item.\<close>

definition create_pending_approvals :: "string \<Rightarrow> item list \<Rightarrow> world \<Rightarrow> world" where
  "create_pending_approvals wid ms w =
     w\<lparr>pending_approvals := pending_approvals w @ map (\<lambda>m. (wid, m)) ms\<rparr>"

definition is_auto_register :: "item \<Rightarrow> bool" where
  "is_auto_register it = py_eq (get it ''action_path'') (JStr ACTION_AUTO)"

definition generate_summary :: "item list \<Rightarrow> string \<Rightarrow> summary" where
  "generate_summary items mode =
     \<lparr>total_materials = length items,
      successful_matches = length (filter is_auto_register items),
      knowledge_base_matches = 0,
      summary_comparison_mode = mode\<rparr>"

definition save_workflow_results :: "string \<Rightarrow> item list \<Rightarrow> summary \<Rightarrow> world \<Rightarrow> world" where
  "save_workflow_results wid results sm w =
     (let res = \<lparr>matches = results, result_summary = sm\<rparr>
      in w\<lparr>results_files := AList.update wid res (results_files w),
           workflow_results := workflow_results w @ [(wid, res)]\<rparr>)"

text \<open>\<^verbatim>\<open>get_workflow_results\<close>: the result file, or \<^verbatim>\<open>ValueError("Results not found")\<close>.\<close>

definition get_workflow_results :: "world \<Rightarrow> string \<Rightarrow> error + workflow_result" where
  "get_workflow_results w wid =
     (case map_of (results_files w) wid of
        None \<Rightarrow> Inl (Exn ValueError ''Results not found'')
      | Some r \<Rightarrow> Inr r)"

text \<open>The three milestones and the handler of the \<^verbatim>\<open>except\<close> clause.\<close>

definition milestone_extracting :: "string \<Rightarrow> world \<Rightarrow> world" where
  "milestone_extracting wid w =
     update_workflow_status wid ''processing'' (Some 10) (Some ''extracting'')
       (Some ''Extracting data from documents'') w"

definition milestone_translating :: "string \<Rightarrow> world \<Rightarrow> world" where
  "milestone_translating wid w =
     update_workflow_status wid ''processing'' (Some 30) (Some ''translating'')
       (Some ''Translating document to English'') w"

definition milestone_classifying :: "string \<Rightarrow> world \<Rightarrow> world" where
  "milestone_classifying wid w =
     update_workflow_status wid ''processing'' (Some 50) (Some ''classifying'')
       (Some ''Classifying and matching items with Gemini'') w"

definition milestone_completed :: "string \<Rightarrow> world \<Rightarrow> world" where
  "milestone_completed wid w =
     update_workflow_status wid ''completed'' (Some 100) (Some ''completed'')
       (Some ''Processing completed successfully'') w"

definition fail_workflow :: "string \<Rightarrow> error \<Rightarrow> world \<Rightarrow> world" where
  "fail_workflow wid e w =
     update_workflow_status wid ''error'' None None
       (Some (''Processing failed: '' @ str_exn e)) w"

text \<open>\<^verbatim>\<open>parse_item_master(item_path, ...) if item_path else []\<close>.\<close>

definition load_item_master :: "services \<Rightarrow> string option \<Rightarrow> error + item list" where
  "load_item_master svc item_path =
     (case item_path of
        None \<Rightarrow> Inr []
      | Some p \<Rightarrow> if p = [] then Inr [] else doc_parse_item_master svc p)"

text \<open>
  What follows the classification call: merge, split, the two sinks, the result. Every
  exception goes to the handler of the \<^verbatim>\<open>except\<close> clause. After an insert that the
  table aborted, the status update of the handler itself raises
  \<^verbatim>\<open>database is locked\<close>: the exception leaves the function and the row of the workflow
  stays as the last milestone wrote it.
\<close>

definition finish_workflow ::
  "services \<Rightarrow> python \<Rightarrow> string \<Rightarrow> string \<Rightarrow> item list \<Rightarrow> world \<Rightarrow> world" where
  "finish_workflow svc py wid mode extracted_items w =
     (case deduplicate_items py extracted_items of
        Inl e \<Rightarrow> fail_workflow wid e w
      | Inr deduplicated_items \<Rightarrow>
          (let items_to_auto_register = filter is_auto_register deduplicated_items;
               items_for_human_review = filter (\<lambda>it. \<not> is_auto_register it) deduplicated_items
           in case add_to_knowledge_base (kb_insert svc) wid items_to_auto_register w of
                (Some (Rejected e), w1) \<Rightarrow> fail_workflow wid e w1
              | (Some (Aborted e), w1) \<Rightarrow> w1
              | (None, w1) \<Rightarrow>
                  (let w2 = create_pending_approvals wid items_for_human_review w1;
                       sm = generate_summary deduplicated_items mode;
                       w3 = save_workflow_results wid deduplicated_items sm w2
                   in milestone_completed wid w3)))"

definition process_workflow_async ::
  "services \<Rightarrow> python \<Rightarrow> string \<Rightarrow> string \<Rightarrow> string option \<Rightarrow> string \<Rightarrow> world \<Rightarrow> world" where
  "process_workflow_async svc py wid wi_path item_path mode w =
     (let w1 = milestone_extracting wid w
      in case doc_extract_text svc wi_path of
           Inl e \<Rightarrow> fail_workflow wid e w1
         | Inr wi_content \<Rightarrow>
        (case load_item_master svc item_path of
           Inl e \<Rightarrow> fail_workflow wid e w1
         | Inr item_master_items \<Rightarrow>
        (case kb_get_items svc of
           Inl e \<Rightarrow> fail_workflow wid e w1
         | Inr kb_items \<Rightarrow>
        (let w2 = milestone_translating wid w1
         in case translation svc wi_content of
              Inl e \<Rightarrow> fail_workflow wid e w2
            | Inr translated_wi_content \<Rightarrow>
           (let w3 = milestone_classifying wid w2
            in case gemini_extract_and_classify svc translated_wi_content item_master_items kb_items of
                 Inl e \<Rightarrow> fail_workflow wid e w3
               | Inr extracted_items \<Rightarrow> finish_workflow svc py wid mode extracted_items w3)))))"

section \<open>The rule chain (\<^verbatim>\<open>_apply_classification_logic\<close> of \<^verbatim>\<open>workflow_service_backup.py\<close>)\<close>

text \<open>
  The function first asks the knowledge base service for a match of the item
  (\<^verbatim>\<open>search_for_matches([item])\<close>, which answers with one entry per item or raises) and
  stores the entry's \<^verbatim>\<open>kb_match\<close> and the flag \<^verbatim>\<open>supplier_match\<close> in the item. The
  outcome of that call is the parameter \<open>kb_search\<close>.
\<close>

definition has_pn :: "item \<Rightarrow> bool" where
  "has_pn it = (truthy (get it ''part_number'') \<and> \<not> py_eq (get it ''part_number'') (JStr []))"

definition has_name :: "item \<Rightarrow> bool" where
  "has_name it = (truthy (get it ''material_name'') \<and> \<not> py_eq (get it ''material_name'') (JStr []))"

definition has_qty :: "item \<Rightarrow> bool" where
  "has_qty it = (get it ''qty'' \<noteq> JNull \<and> \<not> py_eq (get it ''qty'') (JStr []))"

definition has_vendor :: "item \<Rightarrow> bool" where
  "has_vendor it = (truthy (get it ''vendor_name'') \<and> \<not> py_eq (get it ''vendor_name'') (JStr []))"

definition is_kit :: "item \<Rightarrow> bool" where
  "is_kit it = truthy (get_or it ''kit_available'' (JBool False))"

text \<open>\<^verbatim>\<open>item.get(k) in [i.get(k) for i in item_master_items]\<close>.\<close>

definition in_master :: "string \<Rightarrow> item \<Rightarrow> item list \<Rightarrow> bool" where
  "in_master k it item_master_items =
     list_ex (\<lambda>v. py_eq v (get it k)) (map (\<lambda>i. get i k) item_master_items)"

definition pn_match_in_master :: "item \<Rightarrow> item list \<Rightarrow> bool" where
  "pn_match_in_master it item_master_items =
     (has_pn it \<and> in_master ''part_number'' it item_master_items)"

definition name_match_in_master :: "item \<Rightarrow> item list \<Rightarrow> bool" where
  "name_match_in_master it item_master_items =
     (has_name it \<and> in_master ''material_name'' it item_master_items)"

definition is_part_number_obsolete :: "jval \<Rightarrow> bool" where
  "is_part_number_obsolete pn = py_eq pn (JStr ''OBSOLETE-PN'')"

text \<open>\<^verbatim>\<open>'Ambiguous' in name or 'Vague' in name\<close>.\<close>

definition is_name_ambiguous :: "jval \<Rightarrow> error + bool" where
  "is_name_ambiguous name =
     (case py_in (JStr ''Ambiguous'') name of
        Inl e \<Rightarrow> Inl e
      | Inr found \<Rightarrow> if found then Inr True else py_in (JStr ''Vague'') name)"

definition classification_defaults :: "item \<Rightarrow> (string \<times> jval) list" where
  "classification_defaults it =
     [(''pn_match'', JBool False), (''name_mismatch'', JBool False),
      (''pn_mismatch'', JBool False), (''obsolete_pn'', JBool False),
      (''vendor_name_only'', JBool False), (''kit_available'', JBool False),
      (''is_consumable'', JBool False),
      (''qa_classification_label'', JStr ''5''),
      (''qa_confidence_level'', JStr ''low''),
      (''reasoning'', JStr ''No match found''),
      (''action_path'', JStr ACTION_HUMAN),
      (''confidence_score'', JFloat 0.0),
      (''qa_material_name'', get it ''material_name'')]"

definition rule1 :: "(string \<times> jval) list" where
  "rule1 = [(''pn_match'', JBool True), (''is_consumable'', JBool True),
      (''qa_classification_label'', JStr ''1''), (''qa_confidence_level'', JStr ''high''),
      (''reasoning'', JStr ''Match to BOM & Item Master Data''),
      (''action_path'', JStr ACTION_AUTO), (''confidence_score'', JFloat 0.95)]"

definition rule2 :: "(string \<times> jval) list" where
  "rule2 = [(''pn_match'', JBool True), (''is_consumable'', JBool True),
      (''qa_classification_label'', JStr ''2''), (''qa_confidence_level'', JStr ''high''),
      (''reasoning'', JStr ''Verify process parameters match''),
      (''action_path'', JStr ACTION_AUTO), (''confidence_score'', JFloat 0.90)]"

definition rule3 :: "(string \<times> jval) list" where
  "rule3 = [(''is_consumable'', JBool True), (''pn_match'', JBool True),
      (''qa_classification_label'', JStr ''3''), (''qa_confidence_level'', JStr ''medium''),
      (''reasoning'', JStr ''Infer qty from BOM history''),
      (''action_path'', JStr ACTION_FLAG), (''confidence_score'', JFloat 0.70)]"

definition rule9 :: "(string \<times> jval) list" where
  "rule9 = [(''vendor_name_only'', JBool True),
      (''qa_classification_label'', JStr ''9''), (''qa_confidence_level'', JStr ''medium''),
      (''reasoning'', JStr ''Map vendor to consumable in master''),
      (''action_path'', JStr ACTION_FLAG), (''confidence_score'', JFloat 0.60)]"

definition rule11 :: "(string \<times> jval) list" where
  "rule11 = [(''kit_available'', JBool True), (''is_consumable'', JBool True),
      (''qa_classification_label'', JStr ''11''), (''qa_confidence_level'', JStr ''medium''),
      (''reasoning'', JStr ''Expand kit BOM''),
      (''action_path'', JStr ACTION_FLAG), (''confidence_score'', JFloat 0.55)]"

definition rule12 :: "(string \<times> jval) list" where
  "rule12 = [(''is_consumable'', JBool True),
      (''qa_classification_label'', JStr ''12''), (''qa_confidence_level'', JStr ''medium''),
      (''reasoning'', JStr ''Merge WI with QC steps''),
      (''action_path'', JStr ACTION_FLAG), (''confidence_score'', JFloat 0.65)]"

definition rule4 :: "(string \<times> jval) list" where
  "rule4 = [(''is_consumable'', JBool True),
      (''qa_classification_label'', JStr ''4''), (''qa_confidence_level'', JStr ''low''),
      (''reasoning'', JStr ''Check for text match in master data''),
      (''action_path'', JStr ACTION_HUMAN), (''confidence_score'', JFloat 0.40)]"

definition rule6 :: "(string \<times> jval) list" where
  "rule6 = [(''pn_mismatch'', JBool True), (''is_consumable'', JBool True),
      (''qa_classification_label'', JStr ''6''), (''qa_confidence_level'', JStr ''low''),
      (''reasoning'', JStr ''Compare QC vs BOM & Master Data''),
      (''action_path'', JStr ACTION_HUMAN), (''confidence_score'', JFloat 0.30)]"

definition rule7 :: "(string \<times> jval) list" where
  "rule7 = [(''obsolete_pn'', JBool True), (''is_consumable'', JBool True),
      (''qa_classification_label'', JStr ''7''), (''qa_confidence_level'', JStr ''low''),
      (''reasoning'', JStr ''Cross-check active/inactive status''),
      (''action_path'', JStr ACTION_HUMAN), (''confidence_score'', JFloat 0.20)]"

definition rule8 :: "(string \<times> jval) list" where
  "rule8 = [(''name_mismatch'', JBool True),
      (''qa_classification_label'', JStr ''8''), (''qa_confidence_level'', JStr ''low''),
      (''reasoning'', JStr ''NLP ambiguity score high''),
      (''action_path'', JStr ACTION_HUMAN), (''confidence_score'', JFloat 0.35)]"

definition rule10 :: "(string \<times> jval) list" where
  "rule10 = [(''qa_classification_label'', JStr ''10''), (''qa_confidence_level'', JStr ''low''),
      (''reasoning'', JStr ''Detect multiple material refs''),
      (''action_path'', JStr ACTION_HUMAN), (''confidence_score'', JFloat 0.10)]"

definition rule13 :: "(string \<times> jval) list" where
  "rule13 = [(''qa_classification_label'', JStr ''13''), (''qa_confidence_level'', JStr ''low''),
      (''reasoning'', JStr ''Map vendor, expand kit BOM''),
      (''action_path'', JStr ACTION_HUMAN), (''confidence_score'', JFloat 0.25)]"

definition rule5 :: "(string \<times> jval) list" where
  "rule5 = [(''is_consumable'', JBool False),
      (''qa_classification_label'', JStr ''5''), (''qa_confidence_level'', JStr ''low''),
      (''reasoning'', JStr ''No match found''),
      (''action_path'', JStr ACTION_HUMAN), (''confidence_score'', JFloat 0.0)]"

text \<open>The rules after rule 7, the first of which may raise.\<close>

definition late_rules :: "bool \<Rightarrow> bool \<Rightarrow> bool \<Rightarrow> item \<Rightarrow> error + item" where
  "late_rules vendor kit pn it =
     (case is_name_ambiguous (get_or it ''material_name'' (JStr [])) of
        Inl e \<Rightarrow> Inl e
      | Inr ambiguous \<Rightarrow>
          Inr (if ambiguous then dict_update it rule8
               else if truthy (get_or it ''multiple_references'' (JBool False))
                 then dict_update it rule10
               else if vendor \<and> kit \<and> \<not> pn then dict_update it rule13
               else dict_update it rule5))"

definition apply_classification_logic ::
  "(error + jval) \<Rightarrow> item \<Rightarrow> item list \<Rightarrow> error + item" where
  "apply_classification_logic kb_search item0 item_master_items =
     (case kb_search of
        Inl e \<Rightarrow> Inl e
      | Inr kb_match_data \<Rightarrow>
          (let item1 = AList.update ''supplier_match'' (JBool True)
                         (AList.update ''kb_match'' kb_match_data item0);
               pn = has_pn item1;
               name = has_name item1;
               qty = has_qty item1;
               vendor = has_vendor item1;
               kit = is_kit item1;
               pn_match = pn_match_in_master item1 item_master_items;
               name_match = name_match_in_master item1 item_master_items;
               it = dict_update item1 (classification_defaults item1)
           in if pn_match \<and> qty \<and> name then Inr (dict_update it rule1)
              else if pn_match \<and> qty \<and> truthy (get it ''spec_match'') then Inr (dict_update it rule2)
              else if pn_match \<and> \<not> qty then Inr (dict_update it rule3)
              else if vendor \<and> \<not> pn \<and> \<not> name then Inr (dict_update it rule9)
              else if kit \<and> pn then Inr (dict_update it rule11)
              else if \<not> pn \<and> name \<and> qty then Inr (dict_update it rule12)
              else if \<not> pn \<and> name_match then Inr (dict_update it rule4)
              else if pn \<and> name \<and> \<not> pn_match then Inr (dict_update it rule6)
              else if is_part_number_obsolete (get_or it ''part_number'' (JStr [])) \<and> name
                then Inr (dict_update it rule7)
              else late_rules vendor kit pn it))"

section \<open>Notions used in the statements\<close>

text \<open>
  The invariant of the dictionary \<open>unique_items\<close>: its keys are distinct and every item
  is stored under its own key.
\<close>

definition keyed :: "python \<Rightarrow> (string \<times> item) list \<Rightarrow> bool" where
  "keyed py u = (distinct (map fst u) \<and> list_all (\<lambda>p. dedup_key py (snd p) = Inr (fst p)) u)"

text \<open>
  The priority order of the specification: human-review (3) above auto-with-flag (2)
  above auto-register (1), and the three action paths it ranks.
\<close>

definition spec_priority :: "jval \<Rightarrow> nat" where
  "spec_priority v =
     (if v = JStr ACTION_HUMAN then 3
      else if v = JStr ACTION_FLAG then 2
      else if v = JStr ACTION_AUTO then 1
      else 0)"

definition known_action_path :: "jval \<Rightarrow> bool" where
  "known_action_path v = (v = JStr ACTION_HUMAN \<or> v = JStr ACTION_FLAG \<or> v = JStr ACTION_AUTO)"

text \<open>
  The three stages of a run, the milestone the orchestrator writes before each, and the
  world once a stage has been reached.
\<close>

datatype stage = Extracting | Translating | Classifying

fun stage_name :: "stage \<Rightarrow> string" where
  "stage_name Extracting = ''extracting''"
| "stage_name Translating = ''translating''"
| "stage_name Classifying = ''classifying''"

fun stage_progress :: "stage \<Rightarrow> int" where
  "stage_progress Extracting = 10"
| "stage_progress Translating = 30"
| "stage_progress Classifying = 50"

fun stage_message :: "stage \<Rightarrow> string" where
  "stage_message Extracting = ''Extracting data from documents''"
| "stage_message Translating = ''Translating document to English''"
| "stage_message Classifying = ''Classifying and matching items with Gemini''"

fun reached :: "stage \<Rightarrow> string \<Rightarrow> world \<Rightarrow> world" where
  "reached Extracting wid w = milestone_extracting wid w"
| "reached Translating wid w = milestone_translating wid (milestone_extracting wid w)"
| "reached Classifying wid w =
     milestone_classifying wid (milestone_translating wid (milestone_extracting wid w))"

declare reached.simps [simp del]

text \<open>
  The stage calls in the order of the source: the first exception and the stage it was
  raised in, or the items the classification call returned.
\<close>

definition extraction ::
  "services \<Rightarrow> string \<Rightarrow> string option \<Rightarrow> error + string \<times> item list \<times> item list" where
  "extraction svc wi_path item_path =
     (case doc_extract_text svc wi_path of
        Inl e \<Rightarrow> Inl e
      | Inr wi_content \<Rightarrow>
          (case load_item_master svc item_path of
             Inl e \<Rightarrow> Inl e
           | Inr item_master_items \<Rightarrow>
               (case kb_get_items svc of
                  Inl e \<Rightarrow> Inl e
                | Inr kb_items \<Rightarrow> Inr (wi_content, item_master_items, kb_items))))"

definition stage_outcome ::
  "services \<Rightarrow> string \<Rightarrow> string option \<Rightarrow> stage \<times> error + item list" where
  "stage_outcome svc wi_path item_path =
     (case extraction svc wi_path item_path of
        Inl e \<Rightarrow> Inl (Extracting, e)
      | Inr (wi_content, item_master_items, kb_items) \<Rightarrow>
          (case translation svc wi_content of
             Inl e \<Rightarrow> Inl (Translating, e)
           | Inr translated \<Rightarrow>
               (case gemini_extract_and_classify svc translated item_master_items kb_items of
                  Inl e \<Rightarrow> Inl (Classifying, e)
                | Inr extracted_items \<Rightarrow> Inr extracted_items)))"

section \<open>Concrete inputs\<close>

text \<open>Four remote services: busy four times and then answering, always busy, busy once
  and then unreachable, and failing with a server error.\<close>

definition busy_then_ok :: "nat \<Rightarrow> attempt" where
  "busy_then_ok i = (if i < 4 then HTTPError 429 ''429 Client Error'' 
     else Returned \<lparr>status_code = 200, message_content = Inr ''ok''\<rparr>)"

definition always_busy :: "nat \<Rightarrow> attempt" where
  "always_busy i = HTTPError 429 ''429 Client Error''"

definition busy_then_down :: "nat \<Rightarrow> attempt" where
  "busy_then_down i = (if i < 1 then HTTPError 429 ''429 Client Error'' else RequestException ''connection refused'')"

definition server_error :: "nat \<Rightarrow> attempt" where
  "server_error i = HTTPError 500 ''500 Server Error''"

text \<open>The items and the item master of the repository's tests (\<^verbatim>\<open>tests/test_agent.py\<close>).\<close>

definition old_gasket :: item where
  "old_gasket = [(''material_name'', JStr ''Old Gasket''), (''part_number'', JStr ''OBSOLETE-PN''),
     (''qty'', JStr ''1''), (''vendor_name'', JStr ''Old Parts Co.'')]"

definition test_item_master :: "item list" where
  "test_item_master =
     [[(''part_number'', JStr ''PN-123''), (''material_name'', JStr ''Screw M3x10'')],
      [(''part_number'', JStr ''PN-456''), (''material_name'', JStr ''Hex Wrench 10mm'')]]"

definition old_gasket_kb_match :: jval where
  "old_gasket_kb_match = JObj [(''part_number'', JStr ''OBSOLETE-PN''),
     (''material_name'', JStr ''Old Gasket''), (''lifecycle_status'', JStr ''Obsolete''),
     (''confidence_score'', JFloat 0.8)]"

definition screw :: item where
  "screw = [(''part_number'', JStr ''PN-123''), (''material_name'', JStr ''Screw M3x10''),
     (''qty'', JStr ''10'')]"

text \<open>
  Python on the strings of the examples, which are ASCII: there \<^verbatim>\<open>strip\<close> removes the
  ASCII white space, \<^verbatim>\<open>lower\<close> maps A-Z to a-z, and \<^verbatim>\<open>str()\<close> is as below on
  \<^verbatim>\<open>None\<close>, booleans, integers and strings.
\<close>

definition ascii_space :: "char \<Rightarrow> bool" where
  "ascii_space c = (c \<in> set [CHR 0x20, CHR 0x09, CHR 0x0A, CHR 0x0B, CHR 0x0C, CHR 0x0D,
                           CHR 0x1C, CHR 0x1D, CHR 0x1E, CHR 0x1F])"

definition ascii_strip :: "string \<Rightarrow> string" where
  "ascii_strip s = rev (dropWhile ascii_space (rev (dropWhile ascii_space s)))"

definition ascii_lower_char :: "char \<Rightarrow> char" where
  "ascii_lower_char c =
     (case map_of (zip ''ABCDEFGHIJKLMNOPQRSTUVWXYZ'' ''abcdefghijklmnopqrstuvwxyz'') c of
        Some l \<Rightarrow> l
      | None \<Rightarrow> c)"

definition ascii_lower :: "string \<Rightarrow> string" where
  "ascii_lower s = map ascii_lower_char s"

definition str_plain :: "jval \<Rightarrow> string" where
  "str_plain v =
     (case v of
        JNull \<Rightarrow> ''None''
      | JBool b \<Rightarrow> if b then ''True'' else ''False''
      | JInt i \<Rightarrow> if i < 0 then ''-'' @ str_nat (nat (- i)) else str_nat (nat i)
      | JStr s \<Rightarrow> s
      | _ \<Rightarrow> [])"

definition ascii_python :: python where
  "ascii_python = \<lparr>py_str = str_plain, py_strip = ascii_strip, py_lower = ascii_lower\<rparr>"

text \<open>Two mentions of a screw, the first without a classification label, and two
  mentions of a bolt, one routed to human review and one to automatic registration.\<close>

definition bare_screw :: item where
  "bare_screw = [(''material_name'', JStr ''Screw''), (''part_number'', JStr ''PN-1'')]"

definition labelled_screw :: item where
  "labelled_screw = [(''material_name'', JStr '' screw ''), (''part_number'', JStr ''pn-1''),
     (''qa_classification_label'', JStr ''1'')]"

definition reviewed_bolt :: item where
  "reviewed_bolt = [(''material_name'', JStr ''Bolt''), (''part_number'', JStr ''PN-2''),
     (''qa_classification_label'', JStr ''6''), (''reasoning'', JStr ''part number mismatch''),
     (''confidence_score'', JFloat 0.3), (''action_path'', JStr ACTION_HUMAN)]"

definition registered_bolt :: item where
  "registered_bolt = [(''material_name'', JStr ''bolt''), (''part_number'', JStr ''pn-2 ''),
     (''qa_classification_label'', JStr ''1''), (''reasoning'', JStr ''exact match''),
     (''confidence_score'', JFloat 0.95), (''action_path'', JStr ACTION_AUTO)]"

text \<open>
  Items for the runs: one for each action path, one that names no material, and one
  whose material name is a number.
\<close>

definition registered_screw :: item where
  "registered_screw = [(''material_name'', JStr ''Screw M3x10''), (''part_number'', JStr ''PN-123''),
     (''qty'', JStr ''10''), (''qa_classification_label'', JStr ''1''),
     (''confidence_score'', JFloat 0.95), (''action_path'', JStr ACTION_AUTO)]"

definition flagged_kit :: item where
  "flagged_kit = [(''material_name'', JStr ''Kit A''), (''part_number'', JStr ''PN-789''),
     (''qa_classification_label'', JStr ''11''), (''confidence_score'', JFloat 0.55),
     (''action_path'', JStr ACTION_FLAG)]"

definition nameless_item :: item where
  "nameless_item = [(''material_name'', JNull), (''part_number'', JStr ''PN-9''),
     (''action_path'', JStr ACTION_AUTO)]"

definition numbered_item :: item where
  "numbered_item = [(''material_name'', JInt 5), (''action_path'', JStr ACTION_AUTO)]"

text \<open>
  The knowledge base of \<^verbatim>\<open>models.py\<close> on rows whose values the driver can bind: the
  table refuses a row without a material name.
\<close>

definition schema_insert :: "kb_entry \<Rightarrow> refusal option" where
  "schema_insert row =
     (if kb_material_name row = JNull
      then Some (Aborted (Exn IntegrityError
             ''NOT NULL constraint failed: knowledge_base.material_name''))
      else None)"

text \<open>
  A remote service that answers at once, and the repository's services over two remote
  services (one for the translation, one for the classification) and a parser that reads
  the given items out of the answer. The text extraction returns a text, as
  \<^verbatim>\<open>extract_text\<close> does on a supported file, or raises the \<^verbatim>\<open>ValueError\<close> it raises on
  any other extension.
\<close>

definition answering :: "nat \<Rightarrow> attempt" where
  "answering i = Returned \<lparr>status_code = 200, message_content = Inr ''[...]''\<rparr>"

definition demo_services :: "(nat \<Rightarrow> attempt) \<Rightarrow> (nat \<Rightarrow> attempt) \<Rightarrow> item list \<Rightarrow> services" where
  "demo_services translation_post classification_post items =
     \<lparr>doc_extract_text = (\<lambda>p. Inr ''M3x10 neji 10 pon''),
      doc_parse_item_master = (\<lambda>p. Inr test_item_master),
      kb_get_items = Inr [],
      translation = translate_to_english translation_post,
      gemini_extract_and_classify =
        (\<lambda>t im kb. extract_and_classify_items classification_post (\<lambda>text. Some items)),
      kb_insert = schema_insert\<rparr>"

definition three_items :: "item list" where
  "three_items = [registered_screw, flagged_kit, reviewed_bolt]"

definition unsupported_services :: services where
  "unsupported_services =
     (demo_services answering answering three_items)
       \<lparr>doc_extract_text := (\<lambda>p. Inl (Exn ValueError ''Unsupported file type: .png''))\<rparr>"

text \<open>The same with a translation service replaced by one that raises, as a test would.\<close>

definition throwing_services :: services where
  "throwing_services =
     (demo_services answering answering three_items)
       \<lparr>translation := (\<lambda>t. Inl (Exn RuntimeError ''translation unavailable''))\<rparr>"

text \<open>A world holding one fresh workflow.\<close>

definition fresh_workflow :: workflow where
  "fresh_workflow =
     \<lparr>status = ''pending'', comparison_mode = ''full'', progress = 0, current_stage = None,
      message = None, wi_document_path = Some ''uploads/wf-1/wi.txt'', item_master_path = None\<rparr>"

definition demo_world :: world where
  "demo_world =
     \<lparr>workflows = [(''wf-1'', fresh_workflow)], knowledge_base = [], pending_approvals = [],
      results_files = [], workflow_results = []\<rparr>"

section \<open>Properties of the resilient call\<close>

lemma retry_from_posts_le: "posts (retry_from post n i) \<le> n - i"
proof (induction post n i rule: retry_from.induct)
  case (1 post n i)
  show ?case
  proof (cases "i < n")
    case False
    then show ?thesis by (simp add: retry_from.simps)
  next
    case True
    show ?thesis
    proof (cases "post i")
      case (Returned r)
      with True show ?thesis by (simp add: retry_from.simps)
    next
      case (RequestException m)
      with True show ?thesis by (simp add: retry_from.simps)
    next
      case (HTTPError code m)
      show ?thesis
      proof (cases "code = 429 \<and> i < n - 1")
        case False
        with True HTTPError show ?thesis by (auto simp add: retry_from.simps)
      next
        case c: True
        with "1.IH"[OF True HTTPError] have "posts (retry_from post n (i + 1)) \<le> n - (i + 1)" by simp
        with True HTTPError c show ?thesis by (simp add: retry_from.simps Let_def)
      qed
    qed
  qed
qed

lemma retry_from_posts_pos: "i < n \<Longrightarrow> 0 < posts (retry_from post n i)"
  by (subst retry_from.simps) (auto simp add: Let_def split: attempt.splits)

lemma retry_from_sleeps:
  "sleeps (retry_from post n i) = map (\<lambda>k. 2 ^ k) [i ..< i + (posts (retry_from post n i) - 1)]"
proof (induction post n i rule: retry_from.induct)
  case (1 post n i)
  show ?case
  proof (cases "i < n")
    case False
    then show ?thesis by (simp add: retry_from.simps)
  next
    case True
    show ?thesis
    proof (cases "post i")
      case (Returned r)
      with True show ?thesis by (simp add: retry_from.simps)
    next
      case (RequestException m)
      with True show ?thesis by (simp add: retry_from.simps)
    next
      case (HTTPError code m)
      show ?thesis
      proof (cases "code = 429 \<and> i < n - 1")
        case False
        with True HTTPError show ?thesis by (auto simp add: retry_from.simps)
      next
        case c: True
        let ?t = "retry_from post n (i + 1)"
        have ih: "sleeps ?t = map (\<lambda>k. 2 ^ k) [i + 1 ..< i + 1 + (posts ?t - 1)]"
          using "1.IH"[OF True HTTPError] c by simp
        have pos: "0 < posts ?t" using c by (intro retry_from_posts_pos) auto
        have eq: "retry_from post n i = \<lparr>outcome = outcome ?t, posts = 1 + posts ?t, sleeps = 2 ^ i # sleeps ?t\<rparr>"
          using True HTTPError c by (simp add: retry_from.simps[of post n i] Let_def)
        have "[i ..< i + posts ?t] = i # [i + 1 ..< i + 1 + (posts ?t - 1)]"
          using pos by (simp add: upt_conv_Cons)
        then show ?thesis unfolding eq using ih by simp
      qed
    qed
  qed
qed

lemma retry_from_skip:
  assumes "i \<le> k" "k < n" "\<forall>j. i \<le> j \<and> j < k \<longrightarrow> rate_limited (post j)"
  shows "retry_from post n i =
    \<lparr>outcome = outcome (retry_from post n k), posts = (k - i) + posts (retry_from post n k),
     sleeps = map (\<lambda>j. 2 ^ j) [i ..< k] @ sleeps (retry_from post n k)\<rparr>"
  using assms
proof (induction "k - i" arbitrary: i)
  case 0
  then show ?case by simp
next
  case (Suc d)
  then have lt: "i < k" and rl: "rate_limited (post i)" by auto
  from rl obtain m where pi: "post i = HTTPError 429 m"
    by (auto simp add: rate_limited_def split: attempt.splits)
  have step: "retry_from post n i = (let t = retry_from post n (i + 1)
        in \<lparr>outcome = outcome t, posts = 1 + posts t, sleeps = 2 ^ i # sleeps t\<rparr>)"
    using lt Suc.prems(2) pi by (simp add: retry_from.simps[of post n i])
  have ih: "retry_from post n (i + 1) =
    \<lparr>outcome = outcome (retry_from post n k), posts = (k - (i + 1)) + posts (retry_from post n k),
     sleeps = map (\<lambda>j. 2 ^ j) [i + 1 ..< k] @ sleeps (retry_from post n k)\<rparr>"
    using Suc.hyps(1)[of "i + 1"] Suc.hyps(2) Suc.prems lt by auto
  show ?case unfolding step Let_def ih using lt by (simp add: upt_conv_Cons)
qed

lemma retry_from_retried_only_on_429:
  "i \<le> k \<Longrightarrow> k < i + (posts (retry_from post n i) - 1) \<Longrightarrow> rate_limited (post k)"
proof (induction post n i rule: retry_from.induct)
  case (1 post n i)
  show ?case
  proof (cases "i < n")
    case False
    with "1.prems" show ?thesis by (simp add: retry_from.simps)
  next
    case True
    show ?thesis
    proof (cases "post i")
      case (Returned r)
      with True "1.prems" show ?thesis by (simp add: retry_from.simps)
    next
      case (RequestException m)
      with True "1.prems" show ?thesis by (simp add: retry_from.simps)
    next
      case (HTTPError code m)
      show ?thesis
      proof (cases "code = 429 \<and> i < n - 1")
        case False
        with True HTTPError "1.prems" show ?thesis by (auto simp add: retry_from.simps)
      next
        case c: True
        let ?t = "retry_from post n (i + 1)"
        have eq: "retry_from post n i = \<lparr>outcome = outcome ?t, posts = 1 + posts ?t, sleeps = 2 ^ i # sleeps ?t\<rparr>"
          using True HTTPError c by (simp add: retry_from.simps[of post n i] Let_def)
        show ?thesis
        proof (cases "k = i")
          case True
          then show ?thesis using HTTPError c by (simp add: rate_limited_def)
        next
          case False
          with "1.prems" have "i + 1 \<le> k" "k < i + 1 + (posts ?t - 1)" unfolding eq by auto
          with "1.IH"[OF True HTTPError] c show ?thesis by simp
        qed
      qed
    qed
  qed
qed


lemma retry_from_last:
  "k < n \<Longrightarrow> \<not> (rate_limited (post k) \<and> k < n - 1) \<Longrightarrow>
   retry_from post n k =
     \<lparr>outcome = (case post k of
          Returned r \<Rightarrow> Inr (Some r)
        | HTTPError code msg \<Rightarrow> Inl (Exn RuntimeError
            (''API call failed after '' @ str_nat (k + 1) @ '' retries: '' @ msg))
        | RequestException msg \<Rightarrow> Inl (Exn RuntimeError (''API call failed: '' @ msg))),
      posts = 1, sleeps = []\<rparr>"
  by (subst retry_from.simps) (auto simp add: rate_limited_def split: attempt.splits)

lemma call_api_with_retry_stops_at:
  assumes "k < 5" "\<forall>j<k. rate_limited (post j)" "\<not> (rate_limited (post k) \<and> k < 4)"
  shows "call_api_with_retry post =
     \<lparr>outcome = (case post k of
          Returned r \<Rightarrow> Inr (Some r)
        | HTTPError code msg \<Rightarrow> Inl (Exn RuntimeError
            (''API call failed after '' @ str_nat (k + 1) @ '' retries: '' @ msg))
        | RequestException msg \<Rightarrow> Inl (Exn RuntimeError (''API call failed: '' @ msg))),
      posts = k + 1, sleeps = map (\<lambda>j. 2 ^ j) [0 ..< k]\<rparr>"
proof -
  have "retry_from post 5 0 =
    \<lparr>outcome = outcome (retry_from post 5 k), posts = (k - 0) + posts (retry_from post 5 k),
     sleeps = map (\<lambda>j. 2 ^ j) [0 ..< k] @ sleeps (retry_from post 5 k)\<rparr>"
    using assms(1,2) by (intro retry_from_skip) auto
  moreover have "retry_from post 5 k =
     \<lparr>outcome = (case post k of
          Returned r \<Rightarrow> Inr (Some r)
        | HTTPError code msg \<Rightarrow> Inl (Exn RuntimeError
            (''API call failed after '' @ str_nat (k + 1) @ '' retries: '' @ msg))
        | RequestException msg \<Rightarrow> Inl (Exn RuntimeError (''API call failed: '' @ msg))),
      posts = 1, sleeps = []\<rparr>"
    using assms(1,3) by (intro retry_from_last) auto
  ultimately show ?thesis
    by (simp add: call_api_with_retry_def call_api_with_retry_n_def)
qed

text \<open>
  Claim C6. The retrying call posts at most five times; it sleeps 1, 2, 4, ... seconds
  (\<open>2 ^ i\<close> after attempt \<open>i\<close>) and only after an attempt that ended in HTTP 429; any
  other failure (another HTTP status, a transport error) ends the call at once with a
  \<^verbatim>\<open>RuntimeError\<close>; five rate-limited attempts end in the terminal \<^verbatim>\<open>RuntimeError\<close>
  "API call failed after 5 retries"; and four rate-limited attempts followed by a
  successful fifth return that response after sleeping 1, 2, 4 and 8 seconds.
\<close>

theorem call_api_with_retry_policy:
  "posts (call_api_with_retry post) \<le> 5 \<and>
   sleeps (call_api_with_retry post) =
     map (\<lambda>j. 2 ^ j) [0 ..< posts (call_api_with_retry post) - 1] \<and>
   (\<forall>j. j < posts (call_api_with_retry post) - 1 \<longrightarrow> rate_limited (post j)) \<and>
   (\<forall>k msg. k < 5 \<and> (\<forall>j<k. rate_limited (post j)) \<and> post k = RequestException msg \<longrightarrow>
      call_api_with_retry post =
        \<lparr>outcome = Inl (Exn RuntimeError (''API call failed: '' @ msg)),
         posts = k + 1, sleeps = map (\<lambda>j. 2 ^ j) [0 ..< k]\<rparr>) \<and>
   (\<forall>k code msg. k < 5 \<and> (\<forall>j<k. rate_limited (post j)) \<and> post k = HTTPError code msg \<and>
      code \<noteq> 429 \<longrightarrow>
      call_api_with_retry post =
        \<lparr>outcome = Inl (Exn RuntimeError
           (''API call failed after '' @ str_nat (k + 1) @ '' retries: '' @ msg)),
         posts = k + 1, sleeps = map (\<lambda>j. 2 ^ j) [0 ..< k]\<rparr>) \<and>
   (\<forall>msg. (\<forall>j<4. rate_limited (post j)) \<and> post 4 = HTTPError 429 msg \<longrightarrow>
      call_api_with_retry post =
        \<lparr>outcome = Inl (Exn RuntimeError (''API call failed after 5 retries: '' @ msg)),
         posts = 5, sleeps = [1, 2, 4, 8]\<rparr>) \<and>
   (\<forall>r. (\<forall>j<4. rate_limited (post j)) \<and> post 4 = Returned r \<longrightarrow>
      call_api_with_retry post =
        \<lparr>outcome = Inr (Some r), posts = 5, sleeps = [1, 2, 4, 8]\<rparr>)"
proof -
  let ?t = "call_api_with_retry post"
  have upt4: "[0 ..< 4] = [0, 1, 2, 3::nat]" by (simp add: upt_rec)
  have a: "posts ?t \<le> 5"
    using retry_from_posts_le[of post 5 0]
    by (simp add: call_api_with_retry_def call_api_with_retry_n_def)
  have b: "sleeps ?t = map (\<lambda>j. 2 ^ j) [0 ..< posts ?t - 1]"
    using retry_from_sleeps[of post 5 0]
    by (simp add: call_api_with_retry_def call_api_with_retry_n_def)
  have c: "\<forall>j. j < posts ?t - 1 \<longrightarrow> rate_limited (post j)"
    using retry_from_retried_only_on_429[of 0 _ post 5]
    by (simp add: call_api_with_retry_def call_api_with_retry_n_def)
  have d: "\<forall>k msg. k < 5 \<and> (\<forall>j<k. rate_limited (post j)) \<and> post k = RequestException msg \<longrightarrow>
      ?t = \<lparr>outcome = Inl (Exn RuntimeError (''API call failed: '' @ msg)),
         posts = k + 1, sleeps = map (\<lambda>j. 2 ^ j) [0 ..< k]\<rparr>"
  proof (intro allI impI)
    fix k msg
    assume h: "k < 5 \<and> (\<forall>j<k. rate_limited (post j)) \<and> post k = RequestException msg"
    then have "\<not> (rate_limited (post k) \<and> k < 4)" by (simp add: rate_limited_def)
    with h show "?t = \<lparr>outcome = Inl (Exn RuntimeError (''API call failed: '' @ msg)),
         posts = k + 1, sleeps = map (\<lambda>j. 2 ^ j) [0 ..< k]\<rparr>"
      using call_api_with_retry_stops_at[of k post] by simp
  qed
  have e: "\<forall>k code msg. k < 5 \<and> (\<forall>j<k. rate_limited (post j)) \<and> post k = HTTPError code msg \<and>
      code \<noteq> 429 \<longrightarrow>
      ?t = \<lparr>outcome = Inl (Exn RuntimeError
           (''API call failed after '' @ str_nat (k + 1) @ '' retries: '' @ msg)),
         posts = k + 1, sleeps = map (\<lambda>j. 2 ^ j) [0 ..< k]\<rparr>"
  proof (intro allI impI)
    fix k code msg
    assume h: "k < 5 \<and> (\<forall>j<k. rate_limited (post j)) \<and> post k = HTTPError code msg \<and> code \<noteq> 429"
    then have "\<not> (rate_limited (post k) \<and> k < 4)" by (simp add: rate_limited_def)
    with h show "?t = \<lparr>outcome = Inl (Exn RuntimeError
           (''API call failed after '' @ str_nat (k + 1) @ '' retries: '' @ msg)),
         posts = k + 1, sleeps = map (\<lambda>j. 2 ^ j) [0 ..< k]\<rparr>"
      using call_api_with_retry_stops_at[of k post] by simp
  qed
  have f: "\<forall>msg. (\<forall>j<4. rate_limited (post j)) \<and> post 4 = HTTPError 429 msg \<longrightarrow>
      ?t = \<lparr>outcome = Inl (Exn RuntimeError (''API call failed after 5 retries: '' @ msg)),
         posts = 5, sleeps = [1, 2, 4, 8]\<rparr>"
  proof (intro allI impI)
    fix msg
    assume h: "(\<forall>j<4. rate_limited (post j)) \<and> post 4 = HTTPError 429 msg"
    have s5: "str_nat 5 = ''5''" by (simp add: str_nat.simps digit_char_def)
    from h show "?t = \<lparr>outcome = Inl (Exn RuntimeError (''API call failed after 5 retries: '' @ msg)),
         posts = 5, sleeps = [1, 2, 4, 8]\<rparr>"
      using call_api_with_retry_stops_at[of 4 post] by (simp add: upt4 s5)
  qed
  have g: "\<forall>r. (\<forall>j<4. rate_limited (post j)) \<and> post 4 = Returned r \<longrightarrow>
      ?t = \<lparr>outcome = Inr (Some r), posts = 5, sleeps = [1, 2, 4, 8]\<rparr>"
  proof (intro allI impI)
    fix r
    assume h: "(\<forall>j<4. rate_limited (post j)) \<and> post 4 = Returned r"
    then show "?t = \<lparr>outcome = Inr (Some r), posts = 5, sleeps = [1, 2, 4, 8]\<rparr>"
      using call_api_with_retry_stops_at[of 4 post] by (simp add: upt4)
  qed
  from a b c d e f g show ?thesis by (intro conjI)
qed

theorem call_api_with_retry_policy_witness:
  "call_api_with_retry busy_then_ok =
     \<lparr>outcome = Inr (Some \<lparr>status_code = 200, message_content = Inr ''ok''\<rparr>),
      posts = 5, sleeps = [1, 2, 4, 8]\<rparr> \<and>
   call_api_with_retry always_busy =
     \<lparr>outcome = Inl (Exn RuntimeError ''API call failed after 5 retries: 429 Client Error''),
      posts = 5, sleeps = [1, 2, 4, 8]\<rparr> \<and>
   call_api_with_retry busy_then_down =
     \<lparr>outcome = Inl (Exn RuntimeError ''API call failed: connection refused''),
      posts = 2, sleeps = [1]\<rparr> \<and>
   call_api_with_retry server_error =
     \<lparr>outcome = Inl (Exn RuntimeError ''API call failed after 1 retries: 500 Server Error''),
      posts = 1, sleeps = []\<rparr>"
proof -
  have s1: "str_nat (Suc 0) = ''1''" by (simp add: str_nat.simps digit_char_def)
  have u1: "[0 ..< 1] = [0::nat]" by (simp add: upt_rec)
  have "call_api_with_retry busy_then_ok =
     \<lparr>outcome = Inr (Some \<lparr>status_code = 200, message_content = Inr ''ok''\<rparr>),
      posts = 5, sleeps = [1, 2, 4, 8]\<rparr>"
    using call_api_with_retry_policy[of busy_then_ok]
    by (simp add: busy_then_ok_def rate_limited_def)
  moreover have "call_api_with_retry always_busy =
     \<lparr>outcome = Inl (Exn RuntimeError ''API call failed after 5 retries: 429 Client Error''),
      posts = 5, sleeps = [1, 2, 4, 8]\<rparr>"
    using call_api_with_retry_policy[of always_busy]
    by (simp add: always_busy_def rate_limited_def)
  moreover have "call_api_with_retry busy_then_down =
     \<lparr>outcome = Inl (Exn RuntimeError ''API call failed: connection refused''),
      posts = 2, sleeps = [1]\<rparr>"
  proof -
    have d: "\<forall>k msg. k < 5 \<and> (\<forall>j<k. rate_limited (busy_then_down j)) \<and>
        busy_then_down k = RequestException msg \<longrightarrow>
        call_api_with_retry busy_then_down =
          \<lparr>outcome = Inl (Exn RuntimeError (''API call failed: '' @ msg)),
           posts = k + 1, sleeps = map (\<lambda>j. 2 ^ j) [0 ..< k]\<rparr>"
      using call_api_with_retry_policy[of busy_then_down] by (elim conjE)
    have p: "(1::nat) < 5 \<and> (\<forall>j<1. rate_limited (busy_then_down j)) \<and>
       busy_then_down 1 = RequestException ''connection refused''"
      by (simp add: busy_then_down_def rate_limited_def)
    from d[rule_format, OF p] show ?thesis by (simp add: u1)
  qed
  moreover have "call_api_with_retry server_error =
     \<lparr>outcome = Inl (Exn RuntimeError ''API call failed after 1 retries: 500 Server Error''),
      posts = 1, sleeps = []\<rparr>"
  proof -
    have e: "\<forall>k code msg. k < 5 \<and> (\<forall>j<k. rate_limited (server_error j)) \<and>
        server_error k = HTTPError code msg \<and> code \<noteq> 429 \<longrightarrow>
        call_api_with_retry server_error =
          \<lparr>outcome = Inl (Exn RuntimeError
             (''API call failed after '' @ str_nat (k + 1) @ '' retries: '' @ msg)),
           posts = k + 1, sleeps = map (\<lambda>j. 2 ^ j) [0 ..< k]\<rparr>"
      using call_api_with_retry_policy[of server_error] by (elim conjE)
    have p: "(0::nat) < 5 \<and> (\<forall>j<0. rate_limited (server_error j)) \<and>
       server_error 0 = HTTPError 500 ''500 Server Error'' \<and> (500::nat) \<noteq> 429"
      by (simp add: server_error_def)
    from e[rule_format, OF p] show ?thesis by (simp add: s1)
  qed
  ultimately show ?thesis by simp
qed

section \<open>Properties of the rule chain\<close>

lemma map_of_update: "map_of (AList.update k v d) k' = (if k' = k then Some v else map_of d k')"
  by (simp add: update_conv')

lemma get_or_update: "get_or (AList.update k v d) k' x = (if k' = k then v else get_or d k' x)"
  by (simp add: get_or_def map_of_update)

lemma get_update: "get (AList.update k v d) k' = (if k' = k then v else get d k')"
  by (simp add: get_def get_or_update)

lemma get_or_dict_update_Nil: "get_or (dict_update d []) k x = get_or d k x"
  by simp

lemma get_or_dict_update_Cons:
  "get_or (dict_update d (kv # kvs)) k x = get_or (dict_update (AList.update (fst kv) (snd kv) d) kvs) k x"
  by simp

lemma has_pn_enriched:
  "has_pn (AList.update ''supplier_match'' s (AList.update ''kb_match'' m it)) = has_pn it"
  by (simp add: has_pn_def get_update)

lemma has_name_enriched:
  "has_name (AList.update ''supplier_match'' s (AList.update ''kb_match'' m it)) = has_name it"
  by (simp add: has_name_def get_update)

lemma has_qty_enriched:
  "has_qty (AList.update ''supplier_match'' s (AList.update ''kb_match'' m it)) = has_qty it"
  by (simp add: has_qty_def get_update)

lemma in_master_pn_enriched:
  "in_master ''part_number'' (AList.update ''supplier_match'' s (AList.update ''kb_match'' m it)) ms
   = in_master ''part_number'' it ms"
  by (simp add: in_master_def get_update)

lemma pn_match_enriched:
  "pn_match_in_master (AList.update ''supplier_match'' s (AList.update ''kb_match'' m it)) ms
   = pn_match_in_master it ms"
  by (simp add: pn_match_in_master_def has_pn_enriched in_master_pn_enriched)

lemma rule1_fields:
  "get (dict_update d rule1) ''qa_classification_label'' = JStr ''1'' \<and>
   get (dict_update d rule1) ''qa_confidence_level'' = JStr ''high'' \<and>
   get (dict_update d rule1) ''action_path'' = JStr ACTION_AUTO \<and>
   get (dict_update d rule1) ''confidence_score'' = JFloat 0.95"
  by (simp add: rule1_def get_update)

text \<open>
  Claim C4. When the part number of the item is found in the item master and the item has
  a quantity and a name, the rule chain stops at rule 1: label 1, confidence level high,
  action path auto-register, score 0.95, whatever the knowledge base lookup returned; the
  label is never 3. The witness is the scenario of the specification: part number
  PN-123, name "Screw M3x10", quantity "10", against the item master of the tests.
\<close>

theorem rule1_wins:
  assumes "pn_match_in_master it item_master_items" "has_qty it" "has_name it"
  shows "\<exists>r. apply_classification_logic (Inr kb_match_data) it item_master_items = Inr r \<and>
     get r ''qa_classification_label'' = JStr ''1'' \<and>
     get r ''qa_confidence_level'' = JStr ''high'' \<and>
     get r ''action_path'' = JStr ACTION_AUTO \<and>
     get r ''confidence_score'' = JFloat 0.95 \<and>
     get r ''qa_classification_label'' \<noteq> JStr ''3''"
  using assms
  by (simp add: apply_classification_logic_def Let_def pn_match_enriched has_qty_enriched
      has_name_enriched rule1_fields)

theorem rule1_wins_witness:
  "\<exists>r. apply_classification_logic (Inr JNull) screw test_item_master = Inr r \<and>
     get r ''qa_classification_label'' = JStr ''1'' \<and>
     get r ''qa_confidence_level'' = JStr ''high'' \<and>
     get r ''action_path'' = JStr ACTION_AUTO \<and>
     get r ''confidence_score'' = JFloat 0.95 \<and>
     get r ''qa_classification_label'' \<noteq> JStr ''3''"
proof -
  have a: "pn_match_in_master screw test_item_master"
    by (simp add: pn_match_in_master_def has_pn_def in_master_def screw_def test_item_master_def
        get_def get_or_def)
  have b: "has_qty screw" by (simp add: has_qty_def screw_def get_def get_or_def)
  have c: "has_name screw" by (simp add: has_name_def screw_def get_def get_or_def)
  show ?thesis by (rule rule1_wins[OF a b c])
qed

text \<open>
  Claim C2. The claim asks for label 7 on an obsolete part number with a name. On the
  input of \<^verbatim>\<open>test_r004_obsolete_red\<close> (part number OBSOLETE-PN, name "Old Gasket",
  an item master without that part number) the rule chain stops at rule 6 instead:
  label 6, score 0.30.
\<close>

theorem obsolete_part_number_gets_label_6:
  "\<exists>r. apply_classification_logic (Inr old_gasket_kb_match) old_gasket test_item_master = Inr r \<and>
     get r ''qa_classification_label'' = JStr ''6'' \<and>
     get r ''qa_confidence_level'' = JStr ''low'' \<and>
     get r ''action_path'' = JStr ACTION_HUMAN \<and>
     get r ''confidence_score'' = JFloat 0.30 \<and>
     get r ''qa_classification_label'' \<noteq> JStr ''7''"
proof -
  have pn: "has_pn old_gasket" by (simp add: has_pn_def old_gasket_def get_def get_or_def)
  have name: "has_name old_gasket" by (simp add: has_name_def old_gasket_def get_def get_or_def)
  have qty: "has_qty old_gasket" by (simp add: has_qty_def old_gasket_def get_def get_or_def)
  have nomatch: "\<not> pn_match_in_master old_gasket test_item_master"
    by (simp add: pn_match_in_master_def in_master_def old_gasket_def test_item_master_def
        get_def get_or_def)
  have kit: "\<not> is_kit (AList.update ''supplier_match'' (JBool True)
       (AList.update ''kb_match'' old_gasket_kb_match old_gasket))"
    by (simp add: is_kit_def old_gasket_def get_or_def)
  have r6: "get (dict_update d rule6) ''qa_classification_label'' = JStr ''6'' \<and>
     get (dict_update d rule6) ''qa_confidence_level'' = JStr ''low'' \<and>
     get (dict_update d rule6) ''action_path'' = JStr ACTION_HUMAN \<and>
     get (dict_update d rule6) ''confidence_score'' = JFloat 0.30" for d
    by (simp add: rule6_def get_update)
  show ?thesis
    using pn name qty nomatch kit
    by (simp add: apply_classification_logic_def Let_def pn_match_enriched has_qty_enriched
        has_name_enriched has_pn_enriched r6)
qed

text \<open>
  Rule 7 is in fact unreachable. OBSOLETE-PN is a part number, so with a name present
  either rule 6 fires (no match in the item master), or rule 3 (a match, no quantity), or
  rule 1 (a match and a quantity): no input is ever given label 7.
\<close>

lemma py_eq_JStr: "py_eq v (JStr s) = (v = JStr s)"
  by (cases v) auto

lemma rule_labels:
  "get (dict_update d rule1) ''qa_classification_label'' = JStr ''1''"
  "get (dict_update d rule2) ''qa_classification_label'' = JStr ''2''"
  "get (dict_update d rule3) ''qa_classification_label'' = JStr ''3''"
  "get (dict_update d rule4) ''qa_classification_label'' = JStr ''4''"
  "get (dict_update d rule5) ''qa_classification_label'' = JStr ''5''"
  "get (dict_update d rule6) ''qa_classification_label'' = JStr ''6''"
  "get (dict_update d rule8) ''qa_classification_label'' = JStr ''8''"
  "get (dict_update d rule9) ''qa_classification_label'' = JStr ''9''"
  "get (dict_update d rule10) ''qa_classification_label'' = JStr ''10''"
  "get (dict_update d rule11) ''qa_classification_label'' = JStr ''11''"
  "get (dict_update d rule12) ''qa_classification_label'' = JStr ''12''"
  "get (dict_update d rule13) ''qa_classification_label'' = JStr ''13''"
  by (simp_all add: rule1_def rule2_def rule3_def rule4_def rule5_def rule6_def rule8_def
      rule9_def rule10_def rule11_def rule12_def rule13_def get_update)

lemma late_rules_label:
  "late_rules vendor kit pn it = Inr r \<Longrightarrow> get r ''qa_classification_label'' \<noteq> JStr ''7''"
  by (auto simp add: late_rules_def rule_labels split: sum.splits if_splits)

lemma obsolete_has_pn:
  assumes "is_part_number_obsolete
     (get_or (dict_update it (classification_defaults it)) ''part_number'' (JStr []))"
  shows "has_pn it"
proof -
  have "get_or (dict_update it (classification_defaults it)) ''part_number'' (JStr [])
      = get_or it ''part_number'' (JStr [])"
    by (simp add: classification_defaults_def get_or_update)
  with assms have "get_or it ''part_number'' (JStr []) = JStr ''OBSOLETE-PN''"
    by (simp add: is_part_number_obsolete_def py_eq_JStr)
  then have "get it ''part_number'' = JStr ''OBSOLETE-PN''"
    by (auto simp add: get_def get_or_def split: option.splits)
  then show ?thesis by (simp add: has_pn_def)
qed

lemma if_InrE:
  assumes "(if c then Inr a else rest) = Inr r"
  obtains "c" "r = a" | "\<not> c" "rest = Inr r"
  using assms by (cases c) auto

lemma rule7_label: "get (dict_update d rule7) ''qa_classification_label'' = JStr ''7''"
  by (simp add: rule7_def get_update)

theorem rule7_never_fires:
  assumes "apply_classification_logic kb_search it item_master_items = Inr r"
  shows "get r ''qa_classification_label'' \<noteq> JStr ''7''"
proof (cases kb_search)
  case (Inl e)
  with assms show ?thesis by (simp add: apply_classification_logic_def)
next
  case (Inr m)
  let ?i1 = "AList.update ''supplier_match'' (JBool True) (AList.update ''kb_match'' m it)"
  let ?it = "dict_update ?i1 (classification_defaults ?i1)"
  have dead: "pn_match_in_master ?i1 item_master_items \<and> has_qty ?i1 \<and> has_name ?i1"
    if "\<not> (pn_match_in_master ?i1 item_master_items \<and> \<not> has_qty ?i1)"
      "\<not> (has_pn ?i1 \<and> has_name ?i1 \<and> \<not> pn_match_in_master ?i1 item_master_items)"
      "is_part_number_obsolete (get_or ?it ''part_number'' (JStr [])) \<and> has_name ?i1"
    using that obsolete_has_pn[of ?i1] by blast
  from assms Inr have chain:
    "(if pn_match_in_master ?i1 item_master_items \<and> has_qty ?i1 \<and> has_name ?i1
        then Inr (dict_update ?it rule1)
      else if pn_match_in_master ?i1 item_master_items \<and> has_qty ?i1 \<and> truthy (get ?it ''spec_match'')
        then Inr (dict_update ?it rule2)
      else if pn_match_in_master ?i1 item_master_items \<and> \<not> has_qty ?i1
        then Inr (dict_update ?it rule3)
      else if has_vendor ?i1 \<and> \<not> has_pn ?i1 \<and> \<not> has_name ?i1 then Inr (dict_update ?it rule9)
      else if is_kit ?i1 \<and> has_pn ?i1 then Inr (dict_update ?it rule11)
      else if \<not> has_pn ?i1 \<and> has_name ?i1 \<and> has_qty ?i1 then Inr (dict_update ?it rule12)
      else if \<not> has_pn ?i1 \<and> name_match_in_master ?i1 item_master_items
        then Inr (dict_update ?it rule4)
      else if has_pn ?i1 \<and> has_name ?i1 \<and> \<not> pn_match_in_master ?i1 item_master_items
        then Inr (dict_update ?it rule6)
      else if is_part_number_obsolete (get_or ?it ''part_number'' (JStr [])) \<and> has_name ?i1
        then Inr (dict_update ?it rule7)
      else late_rules (has_vendor ?i1) (is_kit ?i1) (has_pn ?i1) ?it) = Inr r"
    by (simp add: apply_classification_logic_def Let_def)
  show ?thesis
    using chain
  proof (elim if_InrE, goal_cases)
    case 1 then show ?case by (simp add: rule_labels)
  next
    case 2 then show ?case by (simp add: rule_labels)
  next
    case 3 then show ?case by (simp add: rule_labels)
  next
    case 4 then show ?case by (simp add: rule_labels)
  next
    case 5 then show ?case by (simp add: rule_labels)
  next
    case 6 then show ?case by (simp add: rule_labels)
  next
    case 7 then show ?case by (simp add: rule_labels)
  next
    case 8 then show ?case by (simp add: rule_labels)
  next
    case 9
    from dead[OF 9(3) 9(8) 9(9)] 9(1) show ?case by blast
  next
    case 10 then show ?case by (blast dest: late_rules_label)
  qed
qed

section \<open>Properties of the deduplication\<close>

lemma merge_reasoning_frame:
  "merge_reasoning str_of ex it = Inr m \<Longrightarrow> k \<noteq> ''reasoning'' \<Longrightarrow> map_of m k = map_of ex k"
  by (auto simp add: merge_reasoning_def Let_def map_of_update split: if_splits sum.splits)

lemma merge_confidence_frame:
  "merge_confidence ex it = Inr m \<Longrightarrow> k \<noteq> ''confidence_score'' \<Longrightarrow> map_of m k = map_of ex k"
  by (auto simp add: merge_confidence_def map_of_update split: sum.splits)

lemma merge_action_path_frame:
  "merge_action_path ex it = Inr m \<Longrightarrow> k \<noteq> ''action_path'' \<Longrightarrow> map_of m k = map_of ex k"
  by (auto simp add: merge_action_path_def map_of_update split: sum.splits option.splits if_splits)

lemma merge_label_frame:
  "k \<noteq> ''qa_classification_label'' \<Longrightarrow> map_of (merge_label ex it) k = map_of ex k"
  by (simp add: merge_label_def map_of_update)

lemma merge_duplicateE:
  assumes "merge_duplicate str_of ex it = Inr m"
  obtains e1 e2 e3 where "merge_reasoning str_of ex it = Inr e1" "merge_confidence e1 it = Inr e2"
    "merge_action_path e2 it = Inr e3" "m = merge_label e3 it"
  using assms by (auto simp add: merge_duplicate_def split: sum.splits)

lemma merge_duplicate_frame:
  assumes "merge_duplicate str_of ex it = Inr m"
    and "k \<noteq> ''reasoning''" "k \<noteq> ''confidence_score''" "k \<noteq> ''action_path''"
    "k \<noteq> ''qa_classification_label''"
  shows "map_of m k = map_of ex k"
proof -
  from assms(1) obtain e1 e2 e3 where
    s: "merge_reasoning str_of ex it = Inr e1" "merge_confidence e1 it = Inr e2"
       "merge_action_path e2 it = Inr e3" "m = merge_label e3 it"
    by (rule merge_duplicateE)
  have "map_of m k = map_of e3 k" using s(4) assms(5) by (simp add: merge_label_frame)
  also have "\<dots> = map_of e2 k" using s(3) assms(4) by (rule merge_action_path_frame)
  also have "\<dots> = map_of e1 k" using s(2) assms(3) by (rule merge_confidence_frame)
  also have "\<dots> = map_of ex k" using s(1) assms(2) by (rule merge_reasoning_frame)
  finally show ?thesis .
qed

lemma dedup_key_cong:
  assumes a: "map_of m ''material_name'' = map_of ex ''material_name''"
    and b: "map_of m ''part_number'' = map_of ex ''part_number''"
  shows "dedup_key py m = dedup_key py ex"
  unfolding dedup_key_def get_def get_or_def a b by (rule refl)

lemma merge_duplicate_key:
  assumes "merge_duplicate str_of ex it = Inr m"
  shows "dedup_key py m = dedup_key py ex"
  by (rule dedup_key_cong) (rule merge_duplicate_frame[OF assms]; simp)+

lemma update_absent: "map_of u k = None \<Longrightarrow> AList.update k v u = u @ [(k, v)]"
  by (induction u) (auto split: if_splits)

lemma list_all_update:
  "list_all P u \<Longrightarrow> P (k, v) \<Longrightarrow> list_all P (AList.update k v u)"
  by (induction u) auto

lemma keyed_update:
  "keyed py u \<Longrightarrow> dedup_key py m = Inr k \<Longrightarrow> keyed py (AList.update k m u)"
  by (simp add: keyed_def distinct_update list_all_update)

lemma keyed_lookup:
  "keyed py u \<Longrightarrow> map_of u k = Some ex \<Longrightarrow> dedup_key py ex = Inr k"
  by (auto simp add: keyed_def list_all_iff dest!: map_of_SomeD)

lemma dedup_loop_keyed:
  "dedup_loop py u xs = Inr u' \<Longrightarrow> keyed py u \<Longrightarrow> keyed py u'"
proof (induction xs arbitrary: u)
  case Nil
  then show ?case by simp
next
  case (Cons x xs)
  from Cons.prems(1) obtain k where k: "dedup_key py x = Inr k"
    by (cases "dedup_key py x") auto
  show ?case
  proof (cases "map_of u k")
    case None
    with Cons.prems(1) k have "dedup_loop py (AList.update k x u) xs = Inr u'" by simp
    moreover have "keyed py (AList.update k x u)" using Cons.prems(2) k by (rule keyed_update)
    ultimately show ?thesis by (rule Cons.IH)
  next
    case (Some ex)
    with Cons.prems(1) k obtain m where m: "merge_duplicate (py_str py) ex x = Inr m"
      and l: "dedup_loop py (AList.update k m u) xs = Inr u'"
      by (cases "merge_duplicate (py_str py) ex x") auto
    have "dedup_key py m = Inr k"
      using merge_duplicate_key[OF m] keyed_lookup[OF Cons.prems(2) Some] by simp
    with Cons.prems(2) have "keyed py (AList.update k m u)" by (rule keyed_update)
    with l show ?thesis by (rule Cons.IH)
  qed
qed

lemma dedup_loop_replay:
  "keyed py (u1 @ u2) \<Longrightarrow> dedup_loop py u1 (map snd u2) = Inr (u1 @ u2)"
proof (induction u2 arbitrary: u1)
  case Nil
  then show ?case by simp
next
  case (Cons p u2)
  obtain k x where p: "p = (k, x)" by (cases p)
  from Cons.prems p have key: "dedup_key py x = Inr k" and fresh: "k \<notin> fst ` set u1"
    by (auto simp add: keyed_def)
  from fresh have none: "map_of u1 k = None" by (simp add: map_of_eq_None_iff)
  have "keyed py ((u1 @ [(k, x)]) @ u2)" using Cons.prems p by simp
  then have "dedup_loop py (u1 @ [(k, x)]) (map snd u2) = Inr ((u1 @ [(k, x)]) @ u2)"
    by (rule Cons.IH)
  then show ?case using key none p by (simp add: update_absent)
qed

lemma deduplicate_items_fixpoint:
  assumes "deduplicate_items py items = Inr r"
  shows "deduplicate_items py r = Inr r"
proof (cases "items = []")
  case True
  with assms show ?thesis by (simp add: deduplicate_items_def)
next
  case False
  with assms obtain u where u: "dedup_loop py [] items = Inr u" and r: "r = map snd u"
    by (cases "dedup_loop py [] items") (auto simp add: deduplicate_items_def)
  have "keyed py []" by (simp add: keyed_def)
  with u have "keyed py u" by (rule dedup_loop_keyed)
  then have "dedup_loop py [] (map snd u) = Inr u"
    using dedup_loop_replay[of py "[]" u] by simp
  then show ?thesis by (simp add: deduplicate_items_def r)
qed

text \<open>
  Claim C8. Deduplication is idempotent: merging the merged list again gives the merged
  list, and a run that raises raises again (the left-hand side runs the merge twice).
\<close>

theorem deduplicate_items_idempotent:
  "(case deduplicate_items py items of
      Inl e \<Rightarrow> Inl e
    | Inr merged \<Rightarrow> deduplicate_items py merged) = deduplicate_items py items"
  by (cases "deduplicate_items py items") (simp_all add: deduplicate_items_fixpoint)

lemma key_bare: "dedup_key ascii_python bare_screw = Inr ''screw||pn-1''"
  by (simp add: dedup_key_def bare_screw_def get_def get_or_def strip_or_empty_def ascii_python_def
      ascii_strip_def ascii_space_def ascii_lower_def ascii_lower_char_def)

lemma key_labelled: "dedup_key ascii_python labelled_screw = Inr ''screw||pn-1''"
  by (simp add: dedup_key_def labelled_screw_def get_def get_or_def strip_or_empty_def ascii_python_def
      ascii_strip_def ascii_space_def ascii_lower_def ascii_lower_char_def)

lemma key_reviewed: "dedup_key ascii_python reviewed_bolt = Inr ''bolt||pn-2''"
  by (simp add: dedup_key_def reviewed_bolt_def get_def get_or_def strip_or_empty_def ascii_python_def
      ascii_strip_def ascii_space_def ascii_lower_def ascii_lower_char_def)

lemma key_registered: "dedup_key ascii_python registered_bolt = Inr ''bolt||pn-2''"
  by (simp add: dedup_key_def registered_bolt_def get_def get_or_def strip_or_empty_def ascii_python_def
      ascii_strip_def ascii_space_def ascii_lower_def ascii_lower_char_def)

lemma deduplicate_pair:
  assumes "dedup_key py a = Inr k" "dedup_key py b = Inr k"
  shows "deduplicate_items py [a, b] =
    (case merge_duplicate (py_str py) a b of Inl e \<Rightarrow> Inl e | Inr m \<Rightarrow> Inr [m])"
  using assms by (simp add: deduplicate_items_def split: sum.splits)

lemma merge_bare_labelled:
  "merge_duplicate str_of bare_screw labelled_screw =
     Inr [(''material_name'', JStr ''Screw''), (''part_number'', JStr ''PN-1''),
          (''confidence_score'', JInt 0), (''qa_classification_label'', JNull)]"
  by (simp add: merge_duplicate_def merge_reasoning_def merge_confidence_def py_max_def
      merge_action_path_def action_path_priority_def merge_label_def bare_screw_def
      labelled_screw_def get_def get_or_def Let_def)

lemma get_cong: "map_of m k = map_of ex k \<Longrightarrow> get m k = get ex k"
  by (simp add: get_def get_or_def)

lemma merge_label_get:
  "get (merge_label ex it) ''qa_classification_label'' = get ex ''qa_classification_label''"
  by (simp add: merge_label_def get_update)

lemma merge_duplicate_label:
  assumes "merge_duplicate str_of ex it = Inr m"
  shows "get m ''qa_classification_label'' = get ex ''qa_classification_label''"
proof -
  from assms obtain e1 e2 e3 where
    s: "merge_reasoning str_of ex it = Inr e1" "merge_confidence e1 it = Inr e2"
       "merge_action_path e2 it = Inr e3" "m = merge_label e3 it"
    by (rule merge_duplicateE)
  have "get m ''qa_classification_label'' = get e3 ''qa_classification_label''"
    using s(4) by (simp add: merge_label_get)
  also have "\<dots> = get e2 ''qa_classification_label''"
    by (rule get_cong, rule merge_action_path_frame[OF s(3)]) simp
  also have "\<dots> = get e1 ''qa_classification_label''"
    by (rule get_cong, rule merge_confidence_frame[OF s(2)]) simp
  also have "\<dots> = get ex ''qa_classification_label''"
    by (rule get_cong, rule merge_reasoning_frame[OF s(1)]) simp
  finally show ?thesis .
qed

lemma deduplicate_pairE:
  assumes "dedup_key py a = dedup_key py b" "deduplicate_items py [a, b] = Inr r"
  obtains m where "merge_duplicate (py_str py) a b = Inr m" "r = [m]"
proof -
  from assms(2) obtain k where k: "dedup_key py a = Inr k"
    by (cases "dedup_key py a") (auto simp add: deduplicate_items_def)
  with assms(1) have "dedup_key py b = Inr k" by simp
  from deduplicate_pair[OF k this] assms(2) that show thesis
    by (cases "merge_duplicate (py_str py) a b") auto
qed

text \<open>
  Claim C3. For two items with the same key that merge without an exception, the
  \<^verbatim>\<open>qa_classification_label\<close> of the merged record is what \<^verbatim>\<open>get\<close> gives on the first
  item: its label when it has one, and \<^verbatim>\<open>None\<close> when it has none, whatever label the
  second item carries. The source assigns
  \<^verbatim>\<open>existing_item.get('qa_classification_label')\<close> to the existing item itself, so the
  label of the second item is never read and a missing label is not filled.
\<close>

theorem merged_label_gap_not_filled:
  assumes "dedup_key py a = dedup_key py b" "deduplicate_items py [a, b] = Inr r"
  shows "\<exists>m. r = [m] \<and>
     get m ''qa_classification_label'' = get a ''qa_classification_label'' \<and>
     (map_of a ''qa_classification_label'' = None \<longrightarrow>
        get m ''qa_classification_label'' = JNull)"
proof -
  from assms obtain m where m: "merge_duplicate (py_str py) a b = Inr m" "r = [m]"
    by (rule deduplicate_pairE)
  have g: "get m ''qa_classification_label'' = get a ''qa_classification_label''"
    using m(1) by (rule merge_duplicate_label)
  moreover have "map_of a ''qa_classification_label'' = None \<Longrightarrow>
      get a ''qa_classification_label'' = JNull"
    by (simp add: get_def get_or_def)
  ultimately show ?thesis using m(2) by auto
qed

text \<open>
  The first mention of the screw has no label, the second has label 1 and the same
  normalized key, and the merged record holds \<^verbatim>\<open>None\<close>, not 1.
\<close>

theorem merged_label_gap_not_filled_witness:
  "dedup_key ascii_python bare_screw = dedup_key ascii_python labelled_screw \<and>
   map_of bare_screw ''qa_classification_label'' = None \<and>
   get labelled_screw ''qa_classification_label'' = JStr ''1'' \<and>
   deduplicate_items ascii_python [bare_screw, labelled_screw] =
     Inr [[(''material_name'', JStr ''Screw''), (''part_number'', JStr ''PN-1''),
           (''confidence_score'', JInt 0), (''qa_classification_label'', JNull)]] \<and>
   (\<exists>m. deduplicate_items ascii_python [bare_screw, labelled_screw] = Inr [m] \<and>
        map_of m ''qa_classification_label'' = Some JNull \<and>
        get m ''qa_classification_label'' \<noteq> get labelled_screw ''qa_classification_label'')"
proof -
  have k: "dedup_key ascii_python bare_screw = dedup_key ascii_python labelled_screw"
    by (simp add: key_bare key_labelled)
  have d: "deduplicate_items ascii_python [bare_screw, labelled_screw] =
     Inr [[(''material_name'', JStr ''Screw''), (''part_number'', JStr ''PN-1''),
           (''confidence_score'', JInt 0), (''qa_classification_label'', JNull)]]"
    by (simp add: deduplicate_pair[OF key_bare key_labelled] merge_bare_labelled)
  have n: "map_of bare_screw ''qa_classification_label'' = None"
    by (simp add: bare_screw_def)
  have l: "get labelled_screw ''qa_classification_label'' = JStr ''1''"
    by (simp add: labelled_screw_def get_def get_or_def)
  have b: "get bare_screw ''qa_classification_label'' = JNull"
    by (simp add: bare_screw_def get_def get_or_def)
  from merged_label_gap_not_filled[OF k d] n d k l b show ?thesis by simp
qed

lemma merge_reviewed_registered:
  "merge_duplicate str_of reviewed_bolt registered_bolt =
     Inr [(''material_name'', JStr ''Bolt''), (''part_number'', JStr ''PN-2''),
          (''qa_classification_label'', JStr ''6''), (''reasoning'', JStr ''part number mismatch | exact match''),
          (''confidence_score'', JFloat 0.95), (''action_path'', JStr ACTION_HUMAN)]"
  by (simp add: merge_duplicate_def merge_reasoning_def merge_confidence_def py_max_def py_in_def
      fmt_def merge_action_path_def action_path_priority_def merge_label_def reviewed_bolt_def
      registered_bolt_def get_def get_or_def Let_def ACTION_HUMAN_def ACTION_AUTO_def
      ACTION_FLAG_def)

lemma merge_registered_reviewed:
  "merge_duplicate str_of registered_bolt reviewed_bolt =
     Inr [(''material_name'', JStr ''bolt''), (''part_number'', JStr ''pn-2 ''),
          (''qa_classification_label'', JStr ''1''), (''reasoning'', JStr ''exact match | part number mismatch''),
          (''confidence_score'', JFloat 0.95), (''action_path'', JStr ACTION_HUMAN)]"
  by (simp add: merge_duplicate_def merge_reasoning_def merge_confidence_def py_max_def py_in_def
      fmt_def merge_action_path_def action_path_priority_def merge_label_def reviewed_bolt_def
      registered_bolt_def get_def get_or_def Let_def ACTION_HUMAN_def ACTION_AUTO_def
      ACTION_FLAG_def)

lemma action_paths_distinct:
  "ACTION_HUMAN \<noteq> ACTION_FLAG" "ACTION_HUMAN \<noteq> ACTION_AUTO" "ACTION_FLAG \<noteq> ACTION_AUTO"
  "ACTION_FLAG \<noteq> ACTION_HUMAN" "ACTION_AUTO \<noteq> ACTION_HUMAN" "ACTION_AUTO \<noteq> ACTION_FLAG"
  by (simp_all add: ACTION_HUMAN_def ACTION_FLAG_def ACTION_AUTO_def)

lemma action_path_priority_known:
  "known_action_path v \<Longrightarrow> action_path_priority v = Inr (Some (spec_priority v))"
  by (auto simp add: known_action_path_def action_path_priority_def spec_priority_def
      action_paths_distinct)

lemma merge_action_path_known:
  assumes "merge_action_path ex it = Inr m"
    "known_action_path (get ex ''action_path'')" "known_action_path (get it ''action_path'')"
  shows "get m ''action_path'' =
    (if spec_priority (get ex ''action_path'') < spec_priority (get it ''action_path'')
     then get it ''action_path'' else get ex ''action_path'')"
  using assms(1)
  by (auto simp add: merge_action_path_def action_path_priority_known[OF assms(2)]
      action_path_priority_known[OF assms(3)] get_update)

lemma merge_duplicate_action_path:
  assumes "merge_duplicate str_of ex it = Inr m"
    "known_action_path (get ex ''action_path'')" "known_action_path (get it ''action_path'')"
  shows "get m ''action_path'' =
    (if spec_priority (get ex ''action_path'') < spec_priority (get it ''action_path'')
     then get it ''action_path'' else get ex ''action_path'')"
proof -
  from assms(1) obtain e1 e2 e3 where
    s: "merge_reasoning str_of ex it = Inr e1" "merge_confidence e1 it = Inr e2"
       "merge_action_path e2 it = Inr e3" "m = merge_label e3 it"
    by (rule merge_duplicateE)
  have "get e2 ''action_path'' = get e1 ''action_path''"
    by (rule get_cong, rule merge_confidence_frame[OF s(2)]) simp
  also have "\<dots> = get ex ''action_path''"
    by (rule get_cong, rule merge_reasoning_frame[OF s(1)]) simp
  finally have e2: "get e2 ''action_path'' = get ex ''action_path''" .
  have "get m ''action_path'' = get e3 ''action_path''"
    unfolding s(4) by (rule get_cong, rule merge_label_frame) simp
  also have "\<dots> = (if spec_priority (get e2 ''action_path'') < spec_priority (get it ''action_path'')
     then get it ''action_path'' else get e2 ''action_path'')"
    using s(3) assms(2,3) unfolding e2[symmetric] by (rule merge_action_path_known)
  finally show ?thesis unfolding e2 .
qed

text \<open>
  Claim C7. For two items with the same key whose action paths are among human-review,
  auto-with-flag and auto-register, and that merge without an exception, the action path
  of the merged record is the one of higher priority (the first item's on a tie). The
  witness merges a human-review item with an auto-register item, in both orders, and
  gets human-review.
\<close>

theorem merged_action_path_most_conservative:
  assumes "dedup_key py a = dedup_key py b" "deduplicate_items py [a, b] = Inr r"
    "known_action_path (get a ''action_path'')" "known_action_path (get b ''action_path'')"
  shows "\<exists>m. r = [m] \<and>
    get m ''action_path'' =
      (if spec_priority (get a ''action_path'') < spec_priority (get b ''action_path'')
       then get b ''action_path'' else get a ''action_path'') \<and>
    spec_priority (get m ''action_path'') =
      max (spec_priority (get a ''action_path'')) (spec_priority (get b ''action_path''))"
proof -
  from assms(1,2) obtain m where m: "merge_duplicate (py_str py) a b = Inr m" "r = [m]"
    by (rule deduplicate_pairE)
  from merge_duplicate_action_path[OF m(1) assms(3,4)] m(2) show ?thesis by auto
qed

theorem merged_action_path_most_conservative_witness:
  "(\<exists>m. deduplicate_items ascii_python [reviewed_bolt, registered_bolt] = Inr [m] \<and>
        get m ''action_path'' = JStr ACTION_HUMAN) \<and>
   (\<exists>m. deduplicate_items ascii_python [registered_bolt, reviewed_bolt] = Inr [m] \<and>
        get m ''action_path'' = JStr ACTION_HUMAN) \<and>
   spec_priority (JStr ACTION_HUMAN) = 3 \<and> spec_priority (JStr ACTION_FLAG) = 2 \<and>
   spec_priority (JStr ACTION_AUTO) = 1"
proof -
  have k: "dedup_key ascii_python reviewed_bolt = dedup_key ascii_python registered_bolt"
    by (simp add: key_reviewed key_registered)
  have pa: "get reviewed_bolt ''action_path'' = JStr ACTION_HUMAN"
    by (simp add: reviewed_bolt_def get_def get_or_def)
  have pb: "get registered_bolt ''action_path'' = JStr ACTION_AUTO"
    by (simp add: registered_bolt_def get_def get_or_def)
  have ka: "known_action_path (get reviewed_bolt ''action_path'')"
    by (simp add: pa known_action_path_def)
  have kb: "known_action_path (get registered_bolt ''action_path'')"
    by (simp add: pb known_action_path_def)
  have sp: "spec_priority (JStr ACTION_HUMAN) = 3 \<and> spec_priority (JStr ACTION_FLAG) = 2 \<and>
     spec_priority (JStr ACTION_AUTO) = 1"
    by (simp add: spec_priority_def action_paths_distinct)
  have d1: "deduplicate_items ascii_python [reviewed_bolt, registered_bolt] =
     Inr [[(''material_name'', JStr ''Bolt''), (''part_number'', JStr ''PN-2''),
          (''qa_classification_label'', JStr ''6''),
          (''reasoning'', JStr ''part number mismatch | exact match''),
          (''confidence_score'', JFloat 0.95), (''action_path'', JStr ACTION_HUMAN)]]"
    by (simp add: deduplicate_pair[OF key_reviewed key_registered] merge_reviewed_registered)
  have d2: "deduplicate_items ascii_python [registered_bolt, reviewed_bolt] =
     Inr [[(''material_name'', JStr ''bolt''), (''part_number'', JStr ''pn-2 ''),
          (''qa_classification_label'', JStr ''1''),
          (''reasoning'', JStr ''exact match | part number mismatch''),
          (''confidence_score'', JFloat 0.95), (''action_path'', JStr ACTION_HUMAN)]]"
    by (simp add: deduplicate_pair[OF key_registered key_reviewed] merge_registered_reviewed)
  from merged_action_path_most_conservative[OF k d1 ka kb]
  have "\<exists>m. deduplicate_items ascii_python [reviewed_bolt, registered_bolt] = Inr [m] \<and>
        get m ''action_path'' = JStr ACTION_HUMAN"
    using d1 sp by (simp add: pa pb)
  moreover from merged_action_path_most_conservative[OF k[symmetric] d2 kb ka]
  have "\<exists>m. deduplicate_items ascii_python [registered_bolt, reviewed_bolt] = Inr [m] \<and>
        get m ''action_path'' = JStr ACTION_HUMAN"
    using d2 sp by (simp add: pa pb)
  ultimately show ?thesis using sp by simp
qed

theorem deduplicate_items_idempotent_witness:
  "deduplicate_items ascii_python [reviewed_bolt, registered_bolt] =
     Inr [[(''material_name'', JStr ''Bolt''), (''part_number'', JStr ''PN-2''),
          (''qa_classification_label'', JStr ''6''),
          (''reasoning'', JStr ''part number mismatch | exact match''),
          (''confidence_score'', JFloat 0.95), (''action_path'', JStr ACTION_HUMAN)]] \<and>
   deduplicate_items ascii_python
      [[(''material_name'', JStr ''Bolt''), (''part_number'', JStr ''PN-2''),
          (''qa_classification_label'', JStr ''6''),
          (''reasoning'', JStr ''part number mismatch | exact match''),
          (''confidence_score'', JFloat 0.95), (''action_path'', JStr ACTION_HUMAN)]] =
     Inr [[(''material_name'', JStr ''Bolt''), (''part_number'', JStr ''PN-2''),
          (''qa_classification_label'', JStr ''6''),
          (''reasoning'', JStr ''part number mismatch | exact match''),
          (''confidence_score'', JFloat 0.95), (''action_path'', JStr ACTION_HUMAN)]]"
proof -
  have d1: "deduplicate_items ascii_python [reviewed_bolt, registered_bolt] =
     Inr [[(''material_name'', JStr ''Bolt''), (''part_number'', JStr ''PN-2''),
          (''qa_classification_label'', JStr ''6''),
          (''reasoning'', JStr ''part number mismatch | exact match''),
          (''confidence_score'', JFloat 0.95), (''action_path'', JStr ACTION_HUMAN)]]"
    by (simp add: deduplicate_pair[OF key_reviewed key_registered] merge_reviewed_registered)
  from deduplicate_items_idempotent[of ascii_python "[reviewed_bolt, registered_bolt]"] d1
  show ?thesis by simp
qed

section \<open>Properties of the orchestrator\<close>

lemma process_by_stage:
  "process_workflow_async svc py wid wi_path item_path mode w =
     (case stage_outcome svc wi_path item_path of
        Inl (st, e) \<Rightarrow> fail_workflow wid e (reached st wid w)
      | Inr extracted_items \<Rightarrow>
          finish_workflow svc py wid mode extracted_items (reached Classifying wid w))"
  by (simp add: process_workflow_async_def stage_outcome_def extraction_def Let_def
      reached.simps split: sum.splits)

lemma update_status_stores [simp]:
  "knowledge_base (update_workflow_status wid st p s m w) = knowledge_base w"
  "pending_approvals (update_workflow_status wid st p s m w) = pending_approvals w"
  "results_files (update_workflow_status wid st p s m w) = results_files w"
  "workflow_results (update_workflow_status wid st p s m w) = workflow_results w"
  by (simp_all add: update_workflow_status_def)

lemma get_workflow_update:
  "get_workflow (update_workflow_status wid st p s m w) wid' =
     (if wid' = wid then map_option (update_row st p s m) (get_workflow w wid)
      else get_workflow w wid')"
  by (simp add: get_workflow_def update_workflow_status_def map_of_map_entry split: option.splits)

lemma get_workflow_results_update [simp]:
  "get_workflow_results (update_workflow_status wid st p s m w) wid' = get_workflow_results w wid'"
  by (simp add: get_workflow_results_def)

lemma reached_stores [simp]:
  "knowledge_base (reached st wid w) = knowledge_base w"
  "pending_approvals (reached st wid w) = pending_approvals w"
  "results_files (reached st wid w) = results_files w"
  "workflow_results (reached st wid w) = workflow_results w"
  by (cases st; simp add: reached.simps milestone_extracting_def milestone_translating_def
      milestone_classifying_def)+

lemma fail_stores [simp]:
  "knowledge_base (fail_workflow wid e w) = knowledge_base w"
  "pending_approvals (fail_workflow wid e w) = pending_approvals w"
  "results_files (fail_workflow wid e w) = results_files w"
  "workflow_results (fail_workflow wid e w) = workflow_results w"
  by (simp_all add: fail_workflow_def)

lemma get_workflow_reached:
  "get_workflow (reached st wid w) wid =
     map_option (\<lambda>r. r\<lparr>status := ''processing'', progress := stage_progress st,
        current_stage := Some (stage_name st), message := Some (stage_message st)\<rparr>)
       (get_workflow w wid)"
  by (cases st; cases "get_workflow w wid";
      simp add: reached.simps milestone_extracting_def milestone_translating_def
        milestone_classifying_def get_workflow_update update_row_def)

lemma get_workflow_fail:
  "get_workflow (fail_workflow wid e w) wid =
     map_option (\<lambda>r. r\<lparr>status := ''error'', message := Some (''Processing failed: '' @ str_exn e)\<rparr>)
       (get_workflow w wid)"
  by (cases "get_workflow w wid"; simp add: fail_workflow_def get_workflow_update update_row_def)

lemma add_to_knowledge_base_stores:
  "add_to_knowledge_base ins wid ms w = (res, w') \<Longrightarrow>
   workflows w' = workflows w \<and> pending_approvals w' = pending_approvals w \<and>
   results_files w' = results_files w \<and> workflow_results w' = workflow_results w"
proof (induction ms arbitrary: w)
  case Nil
  then show ?case by simp
next
  case (Cons m ms)
  show ?case
  proof (cases "ins (kb_entry_of wid m)")
    case (Some e)
    with Cons.prems show ?thesis by simp
  next
    case None
    with Cons.prems have "add_to_knowledge_base ins wid ms
        (w\<lparr>knowledge_base := knowledge_base w @ [kb_entry_of wid m]\<rparr>) = (res, w')" by simp
    from Cons.IH[OF this] show ?thesis by simp
  qed
qed

lemma add_to_knowledge_base_ok:
  "add_to_knowledge_base ins wid ms w = (None, w') \<Longrightarrow>
   w' = w\<lparr>knowledge_base := knowledge_base w @ map (kb_entry_of wid) ms\<rparr>"
proof (induction ms arbitrary: w)
  case Nil
  then show ?case by simp
next
  case (Cons m ms)
  show ?case
  proof (cases "ins (kb_entry_of wid m)")
    case (Some e)
    with Cons.prems show ?thesis by simp
  next
    case None
    with Cons.prems have "add_to_knowledge_base ins wid ms
        (w\<lparr>knowledge_base := knowledge_base w @ [kb_entry_of wid m]\<rparr>) = (None, w')" by simp
    from Cons.IH[OF this] show ?thesis by simp
  qed
qed

lemma get_workflow_same_rows: "workflows w' = workflows w \<Longrightarrow> get_workflow w' wid = get_workflow w wid"
  by (simp add: get_workflow_def)

text \<open>The four ways \<open>finish_workflow\<close> ends.\<close>

lemma finish_workflow_cases:
  obtains (merge_failed) e where
      "deduplicate_items py extracted_items = Inl e"
      "finish_workflow svc py wid mode extracted_items w = fail_workflow wid e w"
  | (kb_rejected) dd e w1 where
      "deduplicate_items py extracted_items = Inr dd"
      "workflows w1 = workflows w" "pending_approvals w1 = pending_approvals w"
      "results_files w1 = results_files w" "workflow_results w1 = workflow_results w"
      "finish_workflow svc py wid mode extracted_items w = fail_workflow wid e w1"
  | (kb_aborted) dd w1 where
      "deduplicate_items py extracted_items = Inr dd"
      "workflows w1 = workflows w" "pending_approvals w1 = pending_approvals w"
      "results_files w1 = results_files w" "workflow_results w1 = workflow_results w"
      "finish_workflow svc py wid mode extracted_items w = w1"
  | (completed) dd where
      "deduplicate_items py extracted_items = Inr dd"
      "finish_workflow svc py wid mode extracted_items w =
         milestone_completed wid
           (save_workflow_results wid dd (generate_summary dd mode)
             (create_pending_approvals wid (filter (\<lambda>it. \<not> is_auto_register it) dd)
               (w\<lparr>knowledge_base := knowledge_base w @
                    map (kb_entry_of wid) (filter is_auto_register dd)\<rparr>)))"
proof (cases "deduplicate_items py extracted_items")
  case (Inl e)
  then have "finish_workflow svc py wid mode extracted_items w = fail_workflow wid e w"
    by (simp add: finish_workflow_def)
  with Inl show thesis by (rule merge_failed)
next
  case (Inr dd)
  obtain res w1 where a: "add_to_knowledge_base (kb_insert svc) wid (filter is_auto_register dd) w
      = (res, w1)" by (cases "add_to_knowledge_base (kb_insert svc) wid (filter is_auto_register dd) w")
  note st = add_to_knowledge_base_stores[OF a]
  show thesis
  proof (cases res)
    case None
    with a have "w1 = w\<lparr>knowledge_base := knowledge_base w @
        map (kb_entry_of wid) (filter is_auto_register dd)\<rparr>"
      by (simp add: add_to_knowledge_base_ok)
    with Inr a None have "finish_workflow svc py wid mode extracted_items w =
         milestone_completed wid
           (save_workflow_results wid dd (generate_summary dd mode)
             (create_pending_approvals wid (filter (\<lambda>it. \<not> is_auto_register it) dd)
               (w\<lparr>knowledge_base := knowledge_base w @
                    map (kb_entry_of wid) (filter is_auto_register dd)\<rparr>)))"
      by (simp add: finish_workflow_def Let_def)
    with Inr show thesis by (rule completed)
  next
    case (Some refused)
    show thesis
    proof (cases refused)
      case (Rejected e)
      with Inr a Some have "finish_workflow svc py wid mode extracted_items w = fail_workflow wid e w1"
        by (simp add: finish_workflow_def Let_def)
      with Inr st show thesis by (intro kb_rejected[of dd w1 e]) simp_all
    next
      case (Aborted e)
      with Inr a Some have "finish_workflow svc py wid mode extracted_items w = w1"
        by (simp add: finish_workflow_def Let_def)
      with Inr st show thesis by (intro kb_aborted[of dd w1]) simp_all
    qed
  qed
qed

lemma status_of_failed:
  "get_workflow (fail_workflow wid e w) wid = Some r' \<Longrightarrow> status r' = ''error''"
  by (auto simp add: get_workflow_fail)

lemma status_of_completed:
  "get_workflow (milestone_completed wid w) wid = Some r' \<Longrightarrow> status r' = ''completed''"
  by (auto simp add: milestone_completed_def get_workflow_update update_row_def)

lemma status_of_reached:
  "get_workflow (reached st wid w) wid = Some r' \<Longrightarrow> status r' = ''processing''"
  by (auto simp add: get_workflow_reached)

lemma save_stores [simp]:
  "workflows (save_workflow_results wid dd sm w) = workflows w"
  "knowledge_base (save_workflow_results wid dd sm w) = knowledge_base w"
  "pending_approvals (save_workflow_results wid dd sm w) = pending_approvals w"
  by (simp_all add: save_workflow_results_def Let_def)

lemma pending_stores [simp]:
  "workflows (create_pending_approvals wid ms w) = workflows w"
  "knowledge_base (create_pending_approvals wid ms w) = knowledge_base w"
  "pending_approvals (create_pending_approvals wid ms w) =
     pending_approvals w @ map (\<lambda>m. (wid, m)) ms"
  "results_files (create_pending_approvals wid ms w) = results_files w"
  "workflow_results (create_pending_approvals wid ms w) = workflow_results w"
  by (simp_all add: create_pending_approvals_def)

lemma completed_stores [simp]:
  "knowledge_base (milestone_completed wid w) = knowledge_base w"
  "pending_approvals (milestone_completed wid w) = pending_approvals w"
  "results_files (milestone_completed wid w) = results_files w"
  "workflow_results (milestone_completed wid w) = workflow_results w"
  by (simp_all add: milestone_completed_def)

text \<open>A run that does not end with status completed has written no result.\<close>

lemma unfinished_keeps_results:
  assumes "get_workflow (process_workflow_async svc py wid wi_path item_path mode w) wid = Some r'"
    and "status r' \<noteq> ''completed''"
  shows "results_files (process_workflow_async svc py wid wi_path item_path mode w) = results_files w \<and>
     workflow_results (process_workflow_async svc py wid wi_path item_path mode w) = workflow_results w"
proof (cases "stage_outcome svc wi_path item_path")
  case (Inl p)
  then show ?thesis by (cases p) (simp add: process_by_stage)
next
  case (Inr items)
  then have p: "process_workflow_async svc py wid wi_path item_path mode w =
      finish_workflow svc py wid mode items (reached Classifying wid w)"
    by (simp add: process_by_stage)
  show ?thesis
  proof (cases rule: finish_workflow_cases[of py items svc wid mode "reached Classifying wid w"])
    case (merge_failed e)
    then show ?thesis by (simp add: p)
  next
    case (kb_rejected dd e w1)
    then show ?thesis by (simp add: p)
  next
    case (kb_aborted dd w1)
    then show ?thesis by (simp add: p)
  next
    case (completed dd)
    with assms(1) have "status r' = ''completed''"
      unfolding p by (simp add: status_of_completed)
    with assms(2) show ?thesis by simp
  qed
qed

text \<open>Where a failed run stopped: the milestone of the stage that raised, or the
  classifying milestone when the merge or the knowledge base raised.\<close>

lemma error_keeps_milestone:
  assumes "get_workflow w wid = Some r"
    and "get_workflow (process_workflow_async svc py wid wi_path item_path mode w) wid = Some r'"
    and "status r' = ''error''"
  shows "case stage_outcome svc wi_path item_path of
      Inl (st, e) \<Rightarrow> progress r' = stage_progress st \<and> current_stage r' = Some (stage_name st)
    | Inr items \<Rightarrow> progress r' = 50 \<and> current_stage r' = Some ''classifying''"
proof (cases "stage_outcome svc wi_path item_path")
  case (Inl p)
  obtain st e where p: "p = (st, e)" by (cases p)
  with Inl assms(1,2) show ?thesis
    by (auto simp add: process_by_stage get_workflow_fail get_workflow_reached)
next
  case (Inr items)
  then have p: "process_workflow_async svc py wid wi_path item_path mode w =
      finish_workflow svc py wid mode items (reached Classifying wid w)"
    by (simp add: process_by_stage)
  have c: "get_workflow (reached Classifying wid w) wid =
     Some (r\<lparr>status := ''processing'', progress := 50, current_stage := Some ''classifying'',
        message := Some (stage_message Classifying)\<rparr>)"
    using assms(1) by (simp add: get_workflow_reached)
  show ?thesis
  proof (cases rule: finish_workflow_cases[of py items svc wid mode "reached Classifying wid w"])
    case (merge_failed e)
    with assms(2) c Inr show ?thesis by (auto simp add: p get_workflow_fail)
  next
    case (kb_rejected dd e w1)
    from kb_rejected(2) have "get_workflow w1 wid = get_workflow (reached Classifying wid w) wid"
      by (rule get_workflow_same_rows)
    with kb_rejected(6) assms(2) c Inr show ?thesis by (auto simp add: p get_workflow_fail)
  next
    case (kb_aborted dd w1)
    from kb_aborted(2) have "get_workflow w1 wid = get_workflow (reached Classifying wid w) wid"
      by (rule get_workflow_same_rows)
    with kb_aborted(6) assms(2) c have "status r' = ''processing''" by (auto simp add: p)
    with assms(3) show ?thesis by simp
  next
    case (completed dd)
    with assms(2) have "status r' = ''completed''"
      unfolding p by (simp add: status_of_completed)
    with assms(3) show ?thesis by simp
  qed
qed

lemma is_auto_register_iff: "is_auto_register it = (get it ''action_path'' = JStr ACTION_AUTO)"
  by (simp add: is_auto_register_def py_eq_JStr)

lemma is_auto_register_eq:
  "is_auto_register = (\<lambda>it. get it ''action_path'' = JStr ACTION_AUTO)"
  by (rule ext) (rule is_auto_register_iff)

lemma kb_entry_of_fields:
  "kb_entry_of wid =
     (\<lambda>it. \<lparr>kb_material_name = get it ''material_name'',
        kb_part_number = get it ''part_number'',
        kb_description = get it ''reasoning'',
        kb_classification_label = get it ''qa_classification_label'',
        kb_confidence = get it ''confidence_score'',
        kb_vendor_name = get it ''vendor_name'',
        kb_workflow_id = wid, kb_approved_by = ''system'', kb_metadata = it\<rparr>)"
  by (rule ext) (simp add: kb_entry_of_def)

lemma translate_to_english_total: "\<exists>t. translate_to_english post text = Inr t"
  by (simp add: translate_to_english_def split: sum.splits option.splits)

lemma extract_and_classify_items_total: "\<exists>items. extract_and_classify_items post parse = Inr items"
  by (simp add: extract_and_classify_items_def split: sum.splits option.splits)

text \<open>With the repository's translation and classification services only the extraction
  stage can raise into the orchestrator.\<close>

lemma repository_services_raise_in_extraction_only:
  assumes "stage_outcome (svc\<lparr>translation := translate_to_english tpost,
      gemini_extract_and_classify := (\<lambda>t im kb. extract_and_classify_items cpost parse)\<rparr>)
      wi_path item_path = Inl (st, e)"
  shows "st = Extracting"
proof -
  let ?svc = "svc\<lparr>translation := translate_to_english tpost,
      gemini_extract_and_classify := (\<lambda>t im kb. extract_and_classify_items cpost parse)\<rparr>"
  show ?thesis
  proof (cases "extraction ?svc wi_path item_path")
    case (Inl e')
    with assms show ?thesis by (simp add: stage_outcome_def)
  next
    case (Inr x)
    obtain t im kb where x: "x = (t, im, kb)" by (cases x)
    obtain tr where tr: "translate_to_english tpost t = Inr tr"
      using translate_to_english_total by blast
    obtain items where it: "extract_and_classify_items cpost parse = Inr items"
      using extract_and_classify_items_total by blast
    from assms Inr x tr it show ?thesis by (simp add: stage_outcome_def)
  qed
qed

text \<open>
  Claim C5, as amended. When the extraction, the translation or the classification call
  raises into the orchestrator, or the merge raises, the run is the error update of the
  milestone reached: the status is error, the message is "Processing failed: " followed
  by the text of the exception, progress and stage stay those of that milestone, nothing
  is written to the knowledge base or to the pending approvals, and no result is stored.
  No run that ends with another status than completed stores a result. The repository's
  own translation and classification services catch their exceptions, so with them only
  the extraction stage raises into the orchestrator.
\<close>

theorem raised_exception_ends_in_error:
  assumes "get_workflow w wid = Some r"
    and "final = process_workflow_async svc py wid wi_path item_path mode w"
  shows "(\<forall>st e. stage_outcome svc wi_path item_path = Inl (st, e) \<longrightarrow>
      final = fail_workflow wid e (reached st wid w) \<and>
      get_workflow final wid =
        Some (r\<lparr>status := ''error'', progress := stage_progress st,
          current_stage := Some (stage_name st),
          message := Some (''Processing failed: '' @ str_exn e)\<rparr>) \<and>
      knowledge_base final = knowledge_base w \<and> pending_approvals final = pending_approvals w \<and>
      results_files final = results_files w \<and> workflow_results final = workflow_results w) \<and>
    (\<forall>items e. stage_outcome svc wi_path item_path = Inr items \<and>
        deduplicate_items py items = Inl e \<longrightarrow>
      final = fail_workflow wid e (reached Classifying wid w) \<and>
      get_workflow final wid =
        Some (r\<lparr>status := ''error'', progress := 50, current_stage := Some ''classifying'',
          message := Some (''Processing failed: '' @ str_exn e)\<rparr>) \<and>
      knowledge_base final = knowledge_base w \<and> pending_approvals final = pending_approvals w \<and>
      results_files final = results_files w \<and> workflow_results final = workflow_results w) \<and>
    (\<forall>r'. get_workflow final wid = Some r' \<and> status r' \<noteq> ''completed'' \<longrightarrow>
      results_files final = results_files w \<and> workflow_results final = workflow_results w) \<and>
    (\<forall>tpost cpost parse st e.
      stage_outcome (svc\<lparr>translation := translate_to_english tpost,
          gemini_extract_and_classify := (\<lambda>t im kb. extract_and_classify_items cpost parse)\<rparr>)
        wi_path item_path = Inl (st, e) \<longrightarrow> st = Extracting)"
proof (intro conjI allI impI)
  fix st e
  assume o: "stage_outcome svc wi_path item_path = Inl (st, e)"
  then show p: "final = fail_workflow wid e (reached st wid w)"
    by (simp add: assms(2) process_by_stage)
  show "get_workflow final wid =
        Some (r\<lparr>status := ''error'', progress := stage_progress st,
          current_stage := Some (stage_name st),
          message := Some (''Processing failed: '' @ str_exn e)\<rparr>)"
    using assms(1) by (simp add: p get_workflow_fail get_workflow_reached)
  show "knowledge_base final = knowledge_base w" by (simp add: p)
  show "pending_approvals final = pending_approvals w" by (simp add: p)
  show "results_files final = results_files w" by (simp add: p)
  show "workflow_results final = workflow_results w" by (simp add: p)
next
  fix items e
  assume o: "stage_outcome svc wi_path item_path = Inr items \<and> deduplicate_items py items = Inl e"
  then show p: "final = fail_workflow wid e (reached Classifying wid w)"
    by (simp add: assms(2) process_by_stage finish_workflow_def)
  show "get_workflow final wid =
        Some (r\<lparr>status := ''error'', progress := 50, current_stage := Some ''classifying'',
          message := Some (''Processing failed: '' @ str_exn e)\<rparr>)"
    using assms(1) by (simp add: p get_workflow_fail get_workflow_reached)
  show "knowledge_base final = knowledge_base w" by (simp add: p)
  show "pending_approvals final = pending_approvals w" by (simp add: p)
  show "results_files final = results_files w" by (simp add: p)
  show "workflow_results final = workflow_results w" by (simp add: p)
next
  fix r'
  assume "get_workflow final wid = Some r' \<and> status r' \<noteq> ''completed''"
  then have "results_files final = results_files w \<and> workflow_results final = workflow_results w"
    unfolding assms(2) using unfinished_keeps_results by blast
  then show "results_files final = results_files w" and "workflow_results final = workflow_results w"
    by simp_all
next
  fix tpost cpost parse st e
  assume "stage_outcome (svc\<lparr>translation := translate_to_english tpost,
          gemini_extract_and_classify := (\<lambda>t im kb. extract_and_classify_items cpost parse)\<rparr>)
        wi_path item_path = Inl (st, e)"
  then show "st = Extracting" by (rule repository_services_raise_in_extraction_only)
qed

text \<open>
  Claim C10. \<^verbatim>\<open>update_workflow_status\<close> sets the status and leaves untouched every field
  whose argument is \<^verbatim>\<open>None\<close> (and the comparison mode and the two paths). The error
  handler passes the status and the message only, so a failed run keeps the progress and
  the stage of the last milestone: those of the stage that raised, or 50 and classifying
  when the exception came after the classification call.
\<close>

theorem status_update_frame:
  assumes "get_workflow w wid = Some r"
  shows "(\<exists>r'. get_workflow (update_workflow_status wid st prog stage msg w) wid = Some r' \<and>
       status r' = st \<and>
       (prog = None \<longrightarrow> progress r' = progress r) \<and>
       (stage = None \<longrightarrow> current_stage r' = current_stage r) \<and>
       (msg = None \<longrightarrow> message r' = message r) \<and>
       comparison_mode r' = comparison_mode r \<and>
       wi_document_path r' = wi_document_path r \<and>
       item_master_path r' = item_master_path r) \<and>
     get_workflow (fail_workflow wid e w) wid =
       Some (r\<lparr>status := ''error'', message := Some (''Processing failed: '' @ str_exn e)\<rparr>) \<and>
     (\<forall>r'. get_workflow (process_workflow_async svc py wid wi_path item_path mode w) wid = Some r' \<and>
         status r' = ''error'' \<longrightarrow>
       (case stage_outcome svc wi_path item_path of
          Inl (st, e) \<Rightarrow> progress r' = stage_progress st \<and> current_stage r' = Some (stage_name st)
        | Inr items \<Rightarrow> progress r' = 50 \<and> current_stage r' = Some ''classifying''))"
proof (intro conjI allI impI)
  show "\<exists>r'. get_workflow (update_workflow_status wid st prog stage msg w) wid = Some r' \<and>
       status r' = st \<and>
       (prog = None \<longrightarrow> progress r' = progress r) \<and>
       (stage = None \<longrightarrow> current_stage r' = current_stage r) \<and>
       (msg = None \<longrightarrow> message r' = message r) \<and>
       comparison_mode r' = comparison_mode r \<and>
       wi_document_path r' = wi_document_path r \<and>
       item_master_path r' = item_master_path r"
    using assms by (simp add: get_workflow_update update_row_def Let_def split: option.splits)
  show "get_workflow (fail_workflow wid e w) wid =
       Some (r\<lparr>status := ''error'', message := Some (''Processing failed: '' @ str_exn e)\<rparr>)"
    using assms by (simp add: get_workflow_fail)
next
  fix r'
  assume "get_workflow (process_workflow_async svc py wid wi_path item_path mode w) wid = Some r' \<and>
         status r' = ''error''"
  then show "case stage_outcome svc wi_path item_path of
          Inl (st, e) \<Rightarrow> progress r' = stage_progress st \<and> current_stage r' = Some (stage_name st)
        | Inr items \<Rightarrow> progress r' = 50 \<and> current_stage r' = Some ''classifying''"
    using error_keeps_milestone[OF assms] by blast
qed

text \<open>
  Claim C9. On a run that ends with status completed, the knowledge base has gained one
  entry, holding the fields of the item, for each deduplicated item whose
  \<^verbatim>\<open>action_path\<close> is the auto-register string, the pending approvals have gained one row
  for each other item, and every deduplicated item is in exactly one of the two lists.
\<close>

theorem routing_split:
  assumes "final = process_workflow_async svc py wid wi_path item_path mode w"
    and "get_workflow final wid = Some r'" and "status r' = ''completed''"
  shows "\<exists>items dd.
     stage_outcome svc wi_path item_path = Inr items \<and>
     deduplicate_items py items = Inr dd \<and>
     knowledge_base final =
       knowledge_base w @
         map (\<lambda>it. \<lparr>kb_material_name = get it ''material_name'',
                kb_part_number = get it ''part_number'',
                kb_description = get it ''reasoning'',
                kb_classification_label = get it ''qa_classification_label'',
                kb_confidence = get it ''confidence_score'',
                kb_vendor_name = get it ''vendor_name'',
                kb_workflow_id = wid, kb_approved_by = ''system'', kb_metadata = it\<rparr>)
           (filter (\<lambda>it. get it ''action_path'' = JStr ACTION_AUTO) dd) \<and>
     pending_approvals final =
       pending_approvals w @
         map (\<lambda>it. (wid, it)) (filter (\<lambda>it. get it ''action_path'' \<noteq> JStr ACTION_AUTO) dd) \<and>
     length (filter (\<lambda>it. get it ''action_path'' = JStr ACTION_AUTO) dd) +
       length (filter (\<lambda>it. get it ''action_path'' \<noteq> JStr ACTION_AUTO) dd) = length dd \<and>
     (\<forall>it \<in> set dd.
        (get it ''action_path'' = JStr ACTION_AUTO \<longrightarrow>
           it \<in> set (filter (\<lambda>it. get it ''action_path'' = JStr ACTION_AUTO) dd) \<and>
           it \<notin> set (filter (\<lambda>it. get it ''action_path'' \<noteq> JStr ACTION_AUTO) dd)) \<and>
        (get it ''action_path'' \<noteq> JStr ACTION_AUTO \<longrightarrow>
           it \<in> set (filter (\<lambda>it. get it ''action_path'' \<noteq> JStr ACTION_AUTO) dd) \<and>
           it \<notin> set (filter (\<lambda>it. get it ''action_path'' = JStr ACTION_AUTO) dd))) \<and>
     ACTION_AUTO = [CHR 0xF0, CHR 0x9F, CHR 0x9F, CHR 0xA2] @ '' Auto-Register''"
proof (cases "stage_outcome svc wi_path item_path")
  case (Inl p)
  obtain st e where "p = (st, e)" by (cases p)
  with Inl assms(2) have "status r' = ''error''"
    by (simp add: assms(1) process_by_stage status_of_failed)
  with assms(3) show ?thesis by simp
next
  case (Inr items)
  then have p: "final = finish_workflow svc py wid mode items (reached Classifying wid w)"
    by (simp add: assms(1) process_by_stage)
  show ?thesis
  proof (cases rule: finish_workflow_cases[of py items svc wid mode "reached Classifying wid w"])
    case (merge_failed e)
    with assms(2) have "status r' = ''error''" by (simp add: p status_of_failed)
    with assms(3) show ?thesis by simp
  next
    case (kb_rejected dd e w1)
    with assms(2) have "status r' = ''error''" by (simp add: p status_of_failed)
    with assms(3) show ?thesis by simp
  next
    case (kb_aborted dd w1)
    from kb_aborted(2) have "get_workflow w1 wid = get_workflow (reached Classifying wid w) wid"
      by (rule get_workflow_same_rows)
    with kb_aborted(6) assms(2) have "status r' = ''processing''"
      by (simp add: p status_of_reached)
    with assms(3) show ?thesis by simp
  next
    case (completed dd)
    have "length (filter (\<lambda>it. get it ''action_path'' = JStr ACTION_AUTO) dd) +
       length (filter (\<lambda>it. get it ''action_path'' \<noteq> JStr ACTION_AUTO) dd) = length dd"
      by (rule sum_length_filter_compl)
    moreover have "ACTION_AUTO = [CHR 0xF0, CHR 0x9F, CHR 0x9F, CHR 0xA2] @ '' Auto-Register''"
      by (simp add: ACTION_AUTO_def)
    ultimately show ?thesis
      using Inr completed
      by (simp only: p kb_entry_of_fields is_auto_register_eq) auto
  qed
qed

text \<open>
  Claim C1, as amended. When the translation call fails, \<^verbatim>\<open>translate_to_english\<close>
  returns the text it was given, and the orchestrator goes on exactly as it would with a
  translation service that returns every text unchanged: the translation stage is not a
  stage failure.
\<close>

theorem translation_failure_falls_back:
  assumes "translation_call_api post = Inl e"
  shows "translate_to_english post text = Inr text \<and>
     process_workflow_async (svc\<lparr>translation := translate_to_english post\<rparr>)
         py wid wi_path item_path mode w =
       process_workflow_async (svc\<lparr>translation := Inr\<rparr>) py wid wi_path item_path mode w"
proof -
  have t: "translate_to_english post = Inr"
    using assms by (auto simp add: translate_to_english_def)
  then show ?thesis by simp
qed

subsection \<open>The runs of the examples\<close>

lemma always_busy_call:
  "call_api_with_retry always_busy =
     \<lparr>outcome = Inl (Exn RuntimeError ''API call failed after 5 retries: 429 Client Error''),
      posts = 5, sleeps = [1, 2, 4, 8]\<rparr>"
proof -
  have s5: "str_nat 5 = ''5''" by (simp add: str_nat.simps digit_char_def)
  have u4: "[0 ..< 4] = [0, 1, 2, 3::nat]" by (simp add: upt_rec)
  have "(4::nat) < 5" "\<forall>j<4. rate_limited (always_busy j)"
    "\<not> (rate_limited (always_busy 4) \<and> (4::nat) < 4)"
    by (simp_all add: always_busy_def rate_limited_def)
  from call_api_with_retry_stops_at[OF this]
  have "call_api_with_retry always_busy =
     \<lparr>outcome = (case always_busy 4 of
          Returned r \<Rightarrow> Inr (Some r)
        | HTTPError code msg \<Rightarrow> Inl (Exn RuntimeError
            (''API call failed after '' @ str_nat (4 + 1) @ '' retries: '' @ msg))
        | RequestException msg \<Rightarrow> Inl (Exn RuntimeError (''API call failed: '' @ msg))),
      posts = 4 + 1, sleeps = map (\<lambda>j. 2 ^ j) [0 ..< 4]\<rparr>" .
  moreover have "always_busy 4 = HTTPError 429 ''429 Client Error''"
    by (simp add: always_busy_def)
  ultimately show ?thesis by (simp add: s5 u4)
qed

lemma answering_call:
  "call_api_with_retry answering =
     \<lparr>outcome = Inr (Some \<lparr>status_code = 200, message_content = Inr ''[...]''\<rparr>),
      posts = 1, sleeps = []\<rparr>"
proof -
  have "(0::nat) < 5" "\<forall>j<0. rate_limited (answering j)"
    "\<not> (rate_limited (answering 0) \<and> (0::nat) < 4)"
    by (simp_all add: answering_def rate_limited_def)
  from call_api_with_retry_stops_at[OF this]
  have "call_api_with_retry answering =
     \<lparr>outcome = (case answering 0 of
          Returned r \<Rightarrow> Inr (Some r)
        | HTTPError code msg \<Rightarrow> Inl (Exn RuntimeError
            (''API call failed after '' @ str_nat (0 + 1) @ '' retries: '' @ msg))
        | RequestException msg \<Rightarrow> Inl (Exn RuntimeError (''API call failed: '' @ msg))),
      posts = 0 + 1, sleeps = map (\<lambda>j. 2 ^ j) [0 ..< 0]\<rparr>" .
  moreover have "answering 0 = Returned \<lparr>status_code = 200, message_content = Inr ''[...]''\<rparr>"
    by (simp add: answering_def)
  ultimately show ?thesis by simp
qed

lemma always_busy_translation:
  "translation_call_api always_busy =
     Inl (Exn RuntimeError ''API call failed: API call failed after 5 retries: 429 Client Error'')"
  by (simp add: translation_call_api_def always_busy_call)

lemma always_busy_classification:
  "extract_and_classify_items always_busy parse = Inr []"
  by (simp add: extract_and_classify_items_def always_busy_call)

lemma answering_classification:
  "extract_and_classify_items answering (\<lambda>text. Some items) = Inr items"
  by (simp add: extract_and_classify_items_def answering_call)

lemma demo_stage_outcome:
  assumes "extract_and_classify_items cpost (\<lambda>text. Some items) = Inr xs"
  shows "stage_outcome (demo_services tpost cpost items) p None = Inr xs"
proof -
  obtain t where "translate_to_english tpost ''M3x10 neji 10 pon'' = Inr t"
    using translate_to_english_total by blast
  with assms show ?thesis
    by (simp add: stage_outcome_def extraction_def demo_services_def load_item_master_def)
qed

lemma demo_kb_insert: "kb_insert (demo_services tpost cpost items) = schema_insert"
  by (simp add: demo_services_def)

lemma demo_row: "get_workflow demo_world ''wf-1'' = Some fresh_workflow"
  by (simp add: get_workflow_def demo_world_def)

lemma demo_stores:
  "knowledge_base demo_world = []" "pending_approvals demo_world = []"
  "results_files demo_world = []" "workflow_results demo_world = []"
  by (simp_all add: demo_world_def)

lemma get_workflow_stores [simp]:
  "get_workflow (save_workflow_results wid' dd sm w) wid = get_workflow w wid"
  "get_workflow (create_pending_approvals wid' ms w) wid = get_workflow w wid"
  "get_workflow (w\<lparr>knowledge_base := kb\<rparr>) wid = get_workflow w wid"
  by (simp_all add: get_workflow_def)

lemma classifying_row:
  "get_workflow (reached Classifying ''wf-1'' demo_world) ''wf-1'' =
     Some (fresh_workflow\<lparr>status := ''processing'', progress := 50,
        current_stage := Some ''classifying'',
        message := Some ''Classifying and matching items with Gemini''\<rparr>)"
  by (simp add: get_workflow_reached demo_row)

lemma key_registered_screw:
  "dedup_key ascii_python registered_screw = Inr ''screw m3x10||pn-123''"
  by (simp add: dedup_key_def registered_screw_def get_def get_or_def strip_or_empty_def
      ascii_python_def ascii_strip_def ascii_space_def ascii_lower_def ascii_lower_char_def)

lemma key_flagged_kit: "dedup_key ascii_python flagged_kit = Inr ''kit a||pn-789''"
  by (simp add: dedup_key_def flagged_kit_def get_def get_or_def strip_or_empty_def
      ascii_python_def ascii_strip_def ascii_space_def ascii_lower_def ascii_lower_char_def)

lemma key_nameless: "dedup_key ascii_python nameless_item = Inr ''||pn-9''"
  by (simp add: dedup_key_def nameless_item_def get_def get_or_def strip_or_empty_def
      ascii_python_def ascii_strip_def ascii_space_def ascii_lower_def ascii_lower_char_def)

lemma key_numbered:
  "dedup_key py numbered_item =
     Inl (Exn AttributeError (quoted ''int'' @ '' object has no attribute '' @ quoted ''strip''))"
  by (simp add: dedup_key_def numbered_item_def get_def get_or_def strip_or_empty_def)

lemma three_dedup: "deduplicate_items ascii_python three_items = Inr three_items"
  by (simp add: deduplicate_items_def three_items_def key_registered_screw key_flagged_kit
      key_reviewed)

lemma nameless_dedup:
  "deduplicate_items ascii_python [registered_screw, nameless_item] =
     Inr [registered_screw, nameless_item]"
  by (simp add: deduplicate_items_def key_registered_screw key_nameless)

lemma numbered_dedup:
  "deduplicate_items py [numbered_item] =
     Inl (Exn AttributeError (quoted ''int'' @ '' object has no attribute '' @ quoted ''strip''))"
  by (simp add: deduplicate_items_def key_numbered)

lemma demo_auto:
  "get registered_screw ''action_path'' = JStr ACTION_AUTO"
  "get flagged_kit ''action_path'' \<noteq> JStr ACTION_AUTO"
  "get reviewed_bolt ''action_path'' \<noteq> JStr ACTION_AUTO"
  "get nameless_item ''action_path'' = JStr ACTION_AUTO"
  by (simp_all add: registered_screw_def flagged_kit_def reviewed_bolt_def nameless_item_def
      get_def get_or_def action_paths_distinct)

lemma schema_insert_registered_screw:
  "schema_insert (kb_entry_of wid registered_screw) = None"
  by (simp add: schema_insert_def kb_entry_of_def registered_screw_def get_def get_or_def)

lemma schema_insert_nameless:
  "schema_insert (kb_entry_of wid nameless_item) =
     Some (Aborted (Exn IntegrityError
       ''NOT NULL constraint failed: knowledge_base.material_name''))"
  by (simp add: schema_insert_def kb_entry_of_def nameless_item_def get_def get_or_def)

text \<open>The three items, classified by a remote service that answers.\<close>

lemma three_completed:
  "process_workflow_async (demo_services tpost answering three_items) ascii_python ''wf-1'' p None
       mode demo_world =
     milestone_completed ''wf-1''
       (save_workflow_results ''wf-1'' three_items (generate_summary three_items mode)
          (create_pending_approvals ''wf-1'' [flagged_kit, reviewed_bolt]
            ((reached Classifying ''wf-1'' demo_world)
               \<lparr>knowledge_base := [kb_entry_of ''wf-1'' registered_screw]\<rparr>)))"
proof -
  have f: "filter is_auto_register three_items = [registered_screw]"
    "filter (\<lambda>it. \<not> is_auto_register it) three_items = [flagged_kit, reviewed_bolt]"
    by (simp_all add: three_items_def is_auto_register_iff demo_auto)
  have "add_to_knowledge_base schema_insert ''wf-1'' [registered_screw]
      (reached Classifying ''wf-1'' demo_world) =
    (None, (reached Classifying ''wf-1'' demo_world)
       \<lparr>knowledge_base := [kb_entry_of ''wf-1'' registered_screw]\<rparr>)"
    by (simp add: schema_insert_registered_screw demo_stores)
  then show ?thesis
    by (simp add: process_by_stage demo_stage_outcome[OF answering_classification]
        finish_workflow_def three_dedup f Let_def demo_kb_insert)
qed

lemma three_completed_row:
  "get_workflow (process_workflow_async (demo_services tpost answering three_items) ascii_python
       ''wf-1'' p None mode demo_world) ''wf-1'' =
   Some (fresh_workflow\<lparr>status := ''completed'', progress := 100,
     current_stage := Some ''completed'', message := Some ''Processing completed successfully''\<rparr>)"
  by (simp add: three_completed milestone_completed_def get_workflow_update update_row_def
      classifying_row)

lemma three_results:
  "results_files (process_workflow_async (demo_services tpost answering three_items) ascii_python
       ''wf-1'' p None mode demo_world) =
     [(''wf-1'', \<lparr>matches = three_items, result_summary = generate_summary three_items mode\<rparr>)]"
  by (simp add: three_completed save_workflow_results_def Let_def demo_stores)

text \<open>The same run against a classification service that is always rate limited.\<close>

lemma busy_completed:
  "process_workflow_async (demo_services tpost always_busy items) ascii_python ''wf-1'' p None
       mode demo_world =
     milestone_completed ''wf-1''
       (save_workflow_results ''wf-1'' [] (generate_summary [] mode)
          (create_pending_approvals ''wf-1'' [] (reached Classifying ''wf-1'' demo_world)))"
  by (simp add: process_by_stage demo_stage_outcome[OF always_busy_classification]
      finish_workflow_def deduplicate_items_def Let_def demo_stores)

lemma busy_completed_row:
  "get_workflow (process_workflow_async (demo_services tpost always_busy items) ascii_python
       ''wf-1'' p None mode demo_world) ''wf-1'' =
   Some (fresh_workflow\<lparr>status := ''completed'', progress := 100,
     current_stage := Some ''completed'', message := Some ''Processing completed successfully''\<rparr>)"
  by (simp add: busy_completed milestone_completed_def get_workflow_update update_row_def
      classifying_row)

lemma busy_results:
  "results_files (process_workflow_async (demo_services tpost always_busy items) ascii_python
       ''wf-1'' p None mode demo_world) =
     [(''wf-1'', \<lparr>matches = [], result_summary = generate_summary [] mode\<rparr>)]"
  by (simp add: busy_completed save_workflow_results_def Let_def demo_stores)

text \<open>
  A run whose second item names no material: the first row is inserted, the insert of
  the second is aborted by the table, and the run stops there.
\<close>

lemma nameless_run:
  "process_workflow_async (demo_services tpost answering [registered_screw, nameless_item])
       ascii_python ''wf-1'' p None mode demo_world =
     (reached Classifying ''wf-1'' demo_world)
       \<lparr>knowledge_base := [kb_entry_of ''wf-1'' registered_screw]\<rparr>"
proof -
  have f: "filter is_auto_register [registered_screw, nameless_item] =
      [registered_screw, nameless_item]"
    by (simp add: is_auto_register_iff demo_auto)
  have "add_to_knowledge_base schema_insert ''wf-1'' [registered_screw, nameless_item]
      (reached Classifying ''wf-1'' demo_world) =
    (Some (Aborted (Exn IntegrityError
       ''NOT NULL constraint failed: knowledge_base.material_name'')),
     (reached Classifying ''wf-1'' demo_world)
       \<lparr>knowledge_base := [kb_entry_of ''wf-1'' registered_screw]\<rparr>)"
    by (simp add: schema_insert_registered_screw schema_insert_nameless demo_stores)
  then show ?thesis
    by (simp add: process_by_stage demo_stage_outcome[OF answering_classification]
        finish_workflow_def nameless_dedup f Let_def demo_kb_insert
        del: add_to_knowledge_base.simps filter.simps)
qed

text \<open>A file the text extraction does not support, and a mocked translation that raises.\<close>

lemma unsupported_stage_outcome:
  "stage_outcome unsupported_services p item_path =
     Inl (Extracting, Exn ValueError ''Unsupported file type: .png'')"
  by (simp add: stage_outcome_def extraction_def unsupported_services_def demo_services_def)

lemma throwing_stage_outcome:
  "stage_outcome throwing_services p None =
     Inl (Translating, Exn RuntimeError ''translation unavailable'')"
  by (simp add: stage_outcome_def extraction_def throwing_services_def demo_services_def
      load_item_master_def)

lemma throwing_row:
  "get_workflow (process_workflow_async throwing_services py ''wf-1'' p None mode demo_world)
     ''wf-1'' =
   Some (fresh_workflow\<lparr>status := ''error'', progress := 30,
     current_stage := Some ''translating'',
     message := Some ''Processing failed: translation unavailable''\<rparr>)"
  by (simp add: process_by_stage throwing_stage_outcome get_workflow_fail get_workflow_reached
      demo_row)

lemma registered_screw_fields:
  "get registered_screw ''material_name'' = JStr ''Screw M3x10''"
  "get registered_screw ''part_number'' = JStr ''PN-123''"
  "get registered_screw ''reasoning'' = JNull"
  "get registered_screw ''qa_classification_label'' = JStr ''1''"
  "get registered_screw ''confidence_score'' = JFloat 0.95"
  "get registered_screw ''vendor_name'' = JNull"
  by (simp_all add: registered_screw_def get_def get_or_def)

lemma numbered_stage_outcome:
  "stage_outcome (demo_services tpost answering [numbered_item]) p None = Inr [numbered_item]"
  by (rule demo_stage_outcome) (rule answering_classification)

lemma unsupported_services_repository:
  "unsupported_services\<lparr>translation := translate_to_english answering,
      gemini_extract_and_classify :=
        (\<lambda>t im kb. extract_and_classify_items answering (\<lambda>text. Some three_items))\<rparr> =
    unsupported_services"
  by (simp add: unsupported_services_def demo_services_def)

text \<open>
  Claim C1 as stated fails: against a remote service that is always rate limited the
  translation call raises, \<^verbatim>\<open>translate_to_english\<close> returns the original text, and the
  workflow ends with status completed and a stored result.
\<close>

theorem translation_failure_is_swallowed:
  "translation_call_api always_busy =
     Inl (Exn RuntimeError ''API call failed: API call failed after 5 retries: 429 Client Error'') \<and>
   translate_to_english always_busy ''M3x10 neji 10 pon'' = Inr ''M3x10 neji 10 pon'' \<and>
   map_option status
     (get_workflow
        (process_workflow_async (demo_services always_busy answering three_items) ascii_python
           ''wf-1'' ''uploads/wf-1/wi.txt'' None ''full'' demo_world) ''wf-1'') = Some ''completed'' \<and>
   map_option matches
     (map_of (results_files
        (process_workflow_async (demo_services always_busy answering three_items) ascii_python
           ''wf-1'' ''uploads/wf-1/wi.txt'' None ''full'' demo_world)) ''wf-1'') =
     Some three_items"
  by (simp add: always_busy_translation translate_to_english_def three_completed_row
      three_results fresh_workflow_def)

theorem translation_failure_falls_back_witness:
  "translation_call_api always_busy =
     Inl (Exn RuntimeError ''API call failed: API call failed after 5 retries: 429 Client Error'') \<and>
   translate_to_english always_busy ''M3x10 neji 10 pon'' = Inr ''M3x10 neji 10 pon'' \<and>
   process_workflow_async (demo_services always_busy answering three_items) ascii_python ''wf-1''
       ''uploads/wf-1/wi.txt'' None ''full'' demo_world =
     process_workflow_async ((demo_services always_busy answering three_items)\<lparr>translation := Inr\<rparr>)
       ascii_python ''wf-1'' ''uploads/wf-1/wi.txt'' None ''full'' demo_world"
proof -
  have eq: "(demo_services always_busy answering three_items)
        \<lparr>translation := translate_to_english always_busy\<rparr> =
      demo_services always_busy answering three_items"
    by (simp add: demo_services_def)
  from translation_failure_falls_back[OF always_busy_translation,
      of "''M3x10 neji 10 pon''" "demo_services always_busy answering three_items" ascii_python
        "''wf-1''" "''uploads/wf-1/wi.txt''" None "''full''" demo_world]
  show ?thesis by (simp add: eq always_busy_translation)
qed

text \<open>
  Claim C5 as stated fails: against a remote service that is always rate limited the
  classification call raises after five attempts, \<^verbatim>\<open>extract_and_classify_items\<close>
  catches the exception and returns the empty list, and the workflow ends with status
  completed and a stored result that holds no item.
\<close>

theorem classification_failure_is_swallowed:
  "outcome (call_api_with_retry always_busy) =
     Inl (Exn RuntimeError ''API call failed after 5 retries: 429 Client Error'') \<and>
   extract_and_classify_items always_busy (\<lambda>text. Some three_items) = Inr [] \<and>
   map_option status
     (get_workflow
        (process_workflow_async (demo_services answering always_busy three_items) ascii_python
           ''wf-1'' ''uploads/wf-1/wi.txt'' None ''full'' demo_world) ''wf-1'') = Some ''completed'' \<and>
   map_option matches
     (map_of (results_files
        (process_workflow_async (demo_services answering always_busy three_items) ascii_python
           ''wf-1'' ''uploads/wf-1/wi.txt'' None ''full'' demo_world)) ''wf-1'') = Some []"
  by (simp add: always_busy_call always_busy_classification busy_completed_row busy_results
      fresh_workflow_def)

text \<open>
  An exception the orchestrator's handler does not turn into the status error: the
  table refuses the row of an item that names no material, \<^verbatim>\<open>add_item\<close> leaves its
  connection open, and the status update of the handler raises in its turn. The row
  inserted before stays, the workflow stays at processing, 50, classifying, and no
  result is stored.
\<close>

theorem aborted_insert_leaves_processing:
  "schema_insert (kb_entry_of ''wf-1'' nameless_item) =
     Some (Aborted (Exn IntegrityError
       ''NOT NULL constraint failed: knowledge_base.material_name'')) \<and>
   get_workflow
     (process_workflow_async (demo_services answering answering [registered_screw, nameless_item])
        ascii_python ''wf-1'' ''uploads/wf-1/wi.txt'' None ''full'' demo_world) ''wf-1'' =
     Some (fresh_workflow\<lparr>status := ''processing'', progress := 50,
       current_stage := Some ''classifying'',
       message := Some ''Classifying and matching items with Gemini''\<rparr>) \<and>
   knowledge_base
     (process_workflow_async (demo_services answering answering [registered_screw, nameless_item])
        ascii_python ''wf-1'' ''uploads/wf-1/wi.txt'' None ''full'' demo_world) =
     [kb_entry_of ''wf-1'' registered_screw] \<and>
   get_workflow_results
     (process_workflow_async (demo_services answering answering [registered_screw, nameless_item])
        ascii_python ''wf-1'' ''uploads/wf-1/wi.txt'' None ''full'' demo_world) ''wf-1'' =
     Inl (Exn ValueError ''Results not found'')"
  by (simp add: schema_insert_nameless nameless_run classifying_row get_workflow_results_def
      demo_stores)

theorem raised_exception_ends_in_error_witness:
  "stage_outcome unsupported_services ''uploads/wf-1/wi.png'' None =
     Inl (Extracting, Exn ValueError ''Unsupported file type: .png'') \<and>
   get_workflow (process_workflow_async unsupported_services ascii_python ''wf-1''
       ''uploads/wf-1/wi.png'' None ''full'' demo_world) ''wf-1'' =
     Some (fresh_workflow\<lparr>status := ''error'', progress := 10,
       current_stage := Some ''extracting'',
       message := Some ''Processing failed: Unsupported file type: .png''\<rparr>) \<and>
   knowledge_base (process_workflow_async unsupported_services ascii_python ''wf-1''
       ''uploads/wf-1/wi.png'' None ''full'' demo_world) = [] \<and>
   pending_approvals (process_workflow_async unsupported_services ascii_python ''wf-1''
       ''uploads/wf-1/wi.png'' None ''full'' demo_world) = [] \<and>
   results_files (process_workflow_async unsupported_services ascii_python ''wf-1''
       ''uploads/wf-1/wi.png'' None ''full'' demo_world) = [] \<and>
   workflow_results (process_workflow_async unsupported_services ascii_python ''wf-1''
       ''uploads/wf-1/wi.png'' None ''full'' demo_world) = [] \<and>
   deduplicate_items ascii_python [numbered_item] =
     Inl (Exn AttributeError (quoted ''int'' @ '' object has no attribute '' @ quoted ''strip'')) \<and>
   get_workflow (process_workflow_async (demo_services answering answering [numbered_item])
       ascii_python ''wf-1'' ''uploads/wf-1/wi.txt'' None ''full'' demo_world) ''wf-1'' =
     Some (fresh_workflow\<lparr>status := ''error'', progress := 50,
       current_stage := Some ''classifying'',
       message := Some (''Processing failed: '' @ quoted ''int'' @
         '' object has no attribute '' @ quoted ''strip'')\<rparr>) \<and>
   results_files (process_workflow_async (demo_services answering answering [numbered_item])
       ascii_python ''wf-1'' ''uploads/wf-1/wi.txt'' None ''full'' demo_world) = [] \<and>
   workflow_results (process_workflow_async (demo_services answering answering [numbered_item])
       ascii_python ''wf-1'' ''uploads/wf-1/wi.txt'' None ''full'' demo_world) = []"
proof -
  let ?u = "process_workflow_async unsupported_services ascii_python ''wf-1''
       ''uploads/wf-1/wi.png'' None ''full'' demo_world"
  let ?n = "process_workflow_async (demo_services answering answering [numbered_item])
       ascii_python ''wf-1'' ''uploads/wf-1/wi.txt'' None ''full'' demo_world"
  note tu = raised_exception_ends_in_error[where svc = unsupported_services
      and py = ascii_python and wi_path = "''uploads/wf-1/wi.png''" and item_path = None
      and mode = "''full''", OF demo_row refl]
  note tn = raised_exception_ends_in_error[
      where svc = "demo_services answering answering [numbered_item]"
      and py = ascii_python and wi_path = "''uploads/wf-1/wi.txt''" and item_path = None
      and mode = "''full''", OF demo_row refl]
  have ou: "stage_outcome unsupported_services ''uploads/wf-1/wi.png'' None =
     Inl (Extracting, Exn ValueError ''Unsupported file type: .png'')"
    by (rule unsupported_stage_outcome)
  from tu ou have a: "get_workflow ?u ''wf-1'' =
        Some (fresh_workflow\<lparr>status := ''error'', progress := stage_progress Extracting,
          current_stage := Some (stage_name Extracting),
          message := Some (''Processing failed: '' @
            str_exn (Exn ValueError ''Unsupported file type: .png''))\<rparr>) \<and>
      knowledge_base ?u = knowledge_base demo_world \<and>
      pending_approvals ?u = pending_approvals demo_world \<and>
      results_files ?u = results_files demo_world \<and>
      workflow_results ?u = workflow_results demo_world"
    by blast
  have on: "stage_outcome (demo_services answering answering [numbered_item])
        ''uploads/wf-1/wi.txt'' None = Inr [numbered_item] \<and>
      deduplicate_items ascii_python [numbered_item] =
        Inl (Exn AttributeError (quoted ''int'' @ '' object has no attribute '' @ quoted ''strip''))"
    by (simp add: numbered_stage_outcome numbered_dedup)
  from tn on have b: "get_workflow ?n ''wf-1'' =
        Some (fresh_workflow\<lparr>status := ''error'', progress := 50,
          current_stage := Some ''classifying'',
          message := Some (''Processing failed: '' @
            str_exn (Exn AttributeError
              (quoted ''int'' @ '' object has no attribute '' @ quoted ''strip'')))\<rparr>) \<and>
      results_files ?n = results_files demo_world \<and>
      workflow_results ?n = workflow_results demo_world"
    by blast
  from tu unsupported_services_repository
  have "\<forall>st e. stage_outcome unsupported_services ''uploads/wf-1/wi.png'' None = Inl (st, e)
      \<longrightarrow> st = Extracting"
    by metis
  from a b ou on show ?thesis by (simp add: demo_stores)
qed

theorem status_update_frame_witness:
  "(\<exists>r'. get_workflow (update_workflow_status ''wf-1'' ''processing'' None None None demo_world)
        ''wf-1'' = Some r' \<and>
      status r' = ''processing'' \<and> progress r' = 0 \<and> current_stage r' = None \<and>
      message r' = None) \<and>
   get_workflow (fail_workflow ''wf-1'' (Exn ValueError ''Unsupported file type: .png'') demo_world)
      ''wf-1'' =
     Some (fresh_workflow\<lparr>status := ''error'',
       message := Some ''Processing failed: Unsupported file type: .png''\<rparr>) \<and>
   map_option (\<lambda>r. (progress r, current_stage r))
     (get_workflow (process_workflow_async throwing_services ascii_python ''wf-1''
        ''uploads/wf-1/wi.txt'' None ''full'' demo_world) ''wf-1'') =
     Some (30, Some ''translating'')"
proof -
  note t = status_update_frame[OF demo_row, of "''processing''" None None None
      "Exn ValueError ''Unsupported file type: .png''" throwing_services ascii_python
      "''uploads/wf-1/wi.txt''" None "''full''"]
  from t have a: "\<exists>r'. get_workflow (update_workflow_status ''wf-1'' ''processing'' None None None
        demo_world) ''wf-1'' = Some r' \<and>
      status r' = ''processing'' \<and> progress r' = 0 \<and> current_stage r' = None \<and>
      message r' = None"
    by (auto simp add: fresh_workflow_def)
  from t have b: "get_workflow (fail_workflow ''wf-1'' (Exn ValueError ''Unsupported file type: .png'')
      demo_world) ''wf-1'' =
     Some (fresh_workflow\<lparr>status := ''error'',
       message := Some ''Processing failed: Unsupported file type: .png''\<rparr>)"
    by simp
  let ?row = "fresh_workflow\<lparr>status := ''error'', progress := 30,
     current_stage := Some ''translating'',
     message := Some ''Processing failed: translation unavailable''\<rparr>"
  have row: "get_workflow (process_workflow_async throwing_services ascii_python ''wf-1''
        ''uploads/wf-1/wi.txt'' None ''full'' demo_world) ''wf-1'' = Some ?row \<and>
      status ?row = ''error''"
    by (simp add: throwing_row)
  with t have "case stage_outcome throwing_services ''uploads/wf-1/wi.txt'' None of
          Inl (st, e) \<Rightarrow> progress ?row = stage_progress st \<and>
            current_stage ?row = Some (stage_name st)
        | Inr items \<Rightarrow> progress ?row = 50 \<and> current_stage ?row = Some ''classifying''"
    by blast
  with row have c: "map_option (\<lambda>r. (progress r, current_stage r))
     (get_workflow (process_workflow_async throwing_services ascii_python ''wf-1''
        ''uploads/wf-1/wi.txt'' None ''full'' demo_world) ''wf-1'') =
     Some (30, Some ''translating'')"
    by (simp add: throwing_stage_outcome)
  from a b c show ?thesis by simp
qed

theorem routing_split_witness:
  "get registered_screw ''action_path'' = JStr ACTION_AUTO \<and>
   get flagged_kit ''action_path'' = JStr ACTION_FLAG \<and>
   get reviewed_bolt ''action_path'' = JStr ACTION_HUMAN \<and>
   knowledge_base (process_workflow_async (demo_services answering answering three_items)
       ascii_python ''wf-1'' ''uploads/wf-1/wi.txt'' None ''full'' demo_world) =
     [\<lparr>kb_material_name = JStr ''Screw M3x10'', kb_part_number = JStr ''PN-123'',
       kb_description = JNull, kb_classification_label = JStr ''1'',
       kb_confidence = JFloat 0.95, kb_vendor_name = JNull, kb_workflow_id = ''wf-1'',
       kb_approved_by = ''system'', kb_metadata = registered_screw\<rparr>] \<and>
   pending_approvals (process_workflow_async (demo_services answering answering three_items)
       ascii_python ''wf-1'' ''uploads/wf-1/wi.txt'' None ''full'' demo_world) =
     [(''wf-1'', flagged_kit), (''wf-1'', reviewed_bolt)]"
proof -
  let ?w = "process_workflow_async (demo_services answering answering three_items)
       ascii_python ''wf-1'' ''uploads/wf-1/wi.txt'' None ''full'' demo_world"
  have row: "get_workflow ?w ''wf-1'' =
     Some (fresh_workflow\<lparr>status := ''completed'', progress := 100,
       current_stage := Some ''completed'', message := Some ''Processing completed successfully''\<rparr>)"
    by (rule three_completed_row)
  have st: "status (fresh_workflow\<lparr>status := ''completed'', progress := 100,
       current_stage := Some ''completed'', message := Some ''Processing completed successfully''\<rparr>)
      = ''completed''" by simp
  from routing_split[OF refl row st] obtain items dd where
    o: "stage_outcome (demo_services answering answering three_items) ''uploads/wf-1/wi.txt''
          None = Inr items"
    and d: "deduplicate_items ascii_python items = Inr dd"
    and k: "knowledge_base ?w =
       knowledge_base demo_world @
         map (\<lambda>it. \<lparr>kb_material_name = get it ''material_name'',
                kb_part_number = get it ''part_number'',
                kb_description = get it ''reasoning'',
                kb_classification_label = get it ''qa_classification_label'',
                kb_confidence = get it ''confidence_score'',
                kb_vendor_name = get it ''vendor_name'',
                kb_workflow_id = ''wf-1'', kb_approved_by = ''system'', kb_metadata = it\<rparr>)
           (filter (\<lambda>it. get it ''action_path'' = JStr ACTION_AUTO) dd)"
    and p: "pending_approvals ?w =
       pending_approvals demo_world @
         map (\<lambda>it. (''wf-1'', it)) (filter (\<lambda>it. get it ''action_path'' \<noteq> JStr ACTION_AUTO) dd)"
    by blast
  from o have "items = three_items"
    by (simp add: demo_stage_outcome[OF answering_classification])
  with d have "dd = three_items"
    by (simp add: three_dedup)
  then have dd: "dd = [registered_screw, flagged_kit, reviewed_bolt]"
    by (simp add: three_items_def)
  have paths: "get flagged_kit ''action_path'' = JStr ACTION_FLAG"
    "get reviewed_bolt ''action_path'' = JStr ACTION_HUMAN"
    by (simp_all add: flagged_kit_def reviewed_bolt_def get_def get_or_def)
  from k have "knowledge_base ?w =
     [\<lparr>kb_material_name = JStr ''Screw M3x10'', kb_part_number = JStr ''PN-123'',
       kb_description = JNull, kb_classification_label = JStr ''1'',
       kb_confidence = JFloat 0.95, kb_vendor_name = JNull, kb_workflow_id = ''wf-1'',
       kb_approved_by = ''system'', kb_metadata = registered_screw\<rparr>]"
    by (simp add: dd demo_auto demo_stores registered_screw_fields)
  moreover from p have "pending_approvals ?w = [(''wf-1'', flagged_kit), (''wf-1'', reviewed_bolt)]"
    by (simp add: dd demo_auto demo_stores)
  ultimately show ?thesis by (simp add: demo_auto paths)
qed
end
